theory Spec2Isabelle
  imports Main "HOL-Library.Word"
begin

section \<open>JavaScript values, exceptions and effects\<close>

text \<open>
  The passkey bridge is TypeScript: \<^verbatim>\<open>toWebAuthnKey.ts\<close> (the registration and login
  ceremonies) and \<^verbatim>\<open>toPasskeyValidator.ts\<close> (the signer adapter). Server replies are
  untyped JSON (\<^verbatim>\<open>await response.json()\<close>), and the code tests them with JavaScript
  truthiness and property reads, so they are modelled as runtime values. \<open>JBytes\<close> is a
  \<^verbatim>\<open>Uint8Array\<close>; it only occurs in messages handed to the signer, never in parsed JSON.
  Numbers are only ever tested for truthiness here, so an integer stands for them.
\<close>

datatype jsval =
    JUndefined
  | JNull
  | JBool bool
  | JNum int
  | JStr string
  | JBytes "8 word list"
  | JArr "jsval list"
  | JObj "(string \<times> jsval) list"

text \<open>\<^verbatim>\<open>!v\<close> is \<open>\<not> truthy v\<close>: undefined, null, false, 0 and the empty string are falsy.\<close>

fun truthy :: "jsval \<Rightarrow> bool" where
  "truthy JUndefined = False"
| "truthy JNull = False"
| "truthy (JBool b) = b"
| "truthy (JNum n) = (n \<noteq> 0)"
| "truthy (JStr s) = (s \<noteq> [])"
| "truthy (JBytes bs) = True"
| "truthy (JArr xs) = True"
| "truthy (JObj kvs) = True"

text \<open>
  What the code can throw: \<^verbatim>\<open>new Error(message)\<close>, the runtime's \<^verbatim>\<open>TypeError\<close> (a property
  read on null or undefined, or \<^verbatim>\<open>in\<close> applied to a primitive), the account library's
  \<^verbatim>\<open>SignTransactionNotSupportedBySmartAccount\<close>, and whatever a collaborator outside the
  repository rejects with (\<open>Rejected\<close>).
\<close>

datatype error =
    Error string
  | TypeError
  | SignTransactionNotSupportedBySmartAccount
  | Rejected string

text \<open>
  \<^verbatim>\<open>v.k\<close> for the keys this program reads (\<^verbatim>\<open>options\<close>, \<^verbatim>\<open>requestId\<close>, \<^verbatim>\<open>accessToken\<close>,
  \<^verbatim>\<open>verified\<close>, \<^verbatim>\<open>publicKeyX\<close>, \<^verbatim>\<open>publicKeyY\<close>): none of them exists on a boxed primitive
  or an array, so the read gives undefined there.
\<close>

fun get_prop :: "jsval \<Rightarrow> string \<Rightarrow> error + jsval" where
  "get_prop JUndefined k = Inl TypeError"
| "get_prop JNull k = Inl TypeError"
| "get_prop (JObj kvs) k = Inr (case map_of kvs k of None \<Rightarrow> JUndefined | Some v \<Rightarrow> v)"
| "get_prop v k = Inr JUndefined"

text \<open>
  The credential an authenticator returns during a ceremony
  (\<^verbatim>\<open>RegistrationResponseJSON\<close> or \<^verbatim>\<open>AuthenticationResponseJSON\<close>): the ceremony reads its
  \<^verbatim>\<open>id\<close> and posts the whole object back to the server.
\<close>

record credential =
  cred_id :: string
  cred_json :: jsval

text \<open>The argument of \<^verbatim>\<open>JSON.stringify\<close> in each request, or no body at all.\<close>

datatype body =
    No_body
  | Username_body string
  | Auth_complete_body jsval credential
  | Register_complete_body credential jsval

text \<open>
  The two kinds of suspension point that leave the process: an HTTP request to the passkey
  server and an invocation of the platform authenticator with its options.
\<close>

datatype event =
    Fetch string body
  | Authenticator jsval

text \<open>
  An asynchronous computation runs to a value or to the exception that rejected it,
  and leaves the list of requests and authenticator invocations it made, in order.
\<close>

type_synonym 'a io = "(error + 'a) \<times> event list"

definition return_io :: "'a \<Rightarrow> 'a io" where
  "return_io x = (Inr x, [])"

definition throw_io :: "error \<Rightarrow> 'a io" where
  "throw_io e = (Inl e, [])"

definition pure_io :: "error + 'a \<Rightarrow> 'a io" where
  "pure_io r = (r, [])"

definition perform :: "event \<Rightarrow> error + 'a \<Rightarrow> 'a io" where
  "perform ev r = (r, [ev])"

definition bind_io :: "'a io \<Rightarrow> ('a \<Rightarrow> 'b io) \<Rightarrow> 'b io" where
  "bind_io m f =
     (case m of
        (Inl e, t) \<Rightarrow> (Inl e, t)
      | (Inr x, t) \<Rightarrow> (case f x of (r, t') \<Rightarrow> (r, t @ t')))"

definition bind_sum :: "error + 'a \<Rightarrow> ('a \<Rightarrow> error + 'b) \<Rightarrow> error + 'b" where
  "bind_sum m f = (case m of Inl e \<Rightarrow> Inl e | Inr x \<Rightarrow> f x)"

section \<open>Collaborators outside the two source files\<close>

text \<open>
  The response object of an \<^verbatim>\<open>AuthenticationResponseJSON\<close>, as the signer reads it.
\<close>

record authenticator_assertion =
  authenticatorData :: string
  clientDataJSON :: string
  signature :: string

record authentication_response =
  response :: authenticator_assertion

text \<open>The argument list of viem's \<^verbatim>\<open>encodeAbiParameters\<close>, each value with its ABI type.\<close>

datatype abi_value =
    Abi_bytes string
  | Abi_string string
  | Abi_uint256 int
  | Abi_bool bool
  | Abi_bytes32 string
  | Abi_tuple "abi_value list"

text \<open>
  The runtime and the libraries: the passkey server behind \<^verbatim>\<open>fetch\<close> followed by
  \<^verbatim>\<open>.json()\<close>, the browser's \<^verbatim>\<open>startAuthentication\<close> and \<^verbatim>\<open>atob\<close>, the built-in \<^verbatim>\<open>BigInt\<close>, and
  viem's \<^verbatim>\<open>keccak256\<close> and \<^verbatim>\<open>encodeAbiParameters\<close>. Each is a parameter of the model; one
  that can throw returns a sum.
\<close>

record platform =
  fetch_json :: "string \<Rightarrow> body \<Rightarrow> error + jsval"
  startAuthentication :: "jsval \<Rightarrow> error + authentication_response"
  atob :: "string \<Rightarrow> error + string"
  BigInt :: "jsval \<Rightarrow> error + int"
  keccak256 :: "string \<Rightarrow> string"
  encodeAbiParameters :: "abi_value list \<Rightarrow> error + string"

text \<open>The configuration \<^verbatim>\<open>getSerializedData\<close> hands to the serializer.\<close>

record PasskeyValidatorSerializedData =
  ser_passkeyServerUrl :: string
  ser_credentials :: string
  ser_entryPoint :: string
  ser_validatorAddress :: string
  ser_pubKeyX :: int
  ser_pubKeyY :: int
  ser_credId :: string
  ser_authenticatorIdHash :: string

text \<open>
  The module \<^verbatim>\<open>./utils\<close> that both files import is not among the sources. Its helpers are
  parameters too, under the names the imports give them. \<open>parseSignature\<close> is the parser
  inside \<^verbatim>\<open>parseAndNormalizeSig\<close> and \<open>rip7212_chain_ids\<close> the table inside
  \<^verbatim>\<open>isRIP7212SupportedNetwork\<close>; both functions are modelled below.
\<close>

record utils =
  b64ToBytes :: "string \<Rightarrow> error + 8 word list"
  uint8ArrayToHexString :: "8 word list \<Rightarrow> string"
  hexStringToUint8Array :: "string \<Rightarrow> error + 8 word list"
  base64FromArrayBuffer :: "8 word list \<Rightarrow> bool \<Rightarrow> string"
  findQuoteIndices :: "string \<Rightarrow> error + int \<times> int"
  parseSignature :: "string \<Rightarrow> error + int \<times> int"
  rip7212_chain_ids :: "nat list"
  getValidatorAddress :: "string \<Rightarrow> string"
  serializePasskeyValidatorData :: "PasskeyValidatorSerializedData \<Rightarrow> string"
  deserializePasskeyValidatorData :: "string \<Rightarrow> error + PasskeyValidatorSerializedData"

definition fetch :: "platform \<Rightarrow> string \<Rightarrow> body \<Rightarrow> jsval io" where
  "fetch pf url b = perform (Fetch url b) (fetch_json pf url b)"

definition authenticate :: "(jsval \<Rightarrow> error + 'c) \<Rightarrow> jsval \<Rightarrow> 'c io" where
  "authenticate invoke opts = perform (Authenticator opts) (invoke opts)"

section \<open>Credential acquisition: \<^verbatim>\<open>toWebAuthnKey.ts\<close>\<close>

datatype WebAuthnMode = Register | Login

record WebAuthnKey =
  pubX :: int
  pubY :: int
  credId :: string
  authenticatorIdHash :: string

record WebAuthnAccountParams =
  passkeyName :: string
  passkeyServerUrl :: string
  webAuthnKey :: "WebAuthnKey option"
  mode :: WebAuthnMode
  signWithAuthenticator :: "jsval \<Rightarrow> error + credential"

text \<open>
  \<^verbatim>\<open>loginOrRegisterWithWebAuthn\<close> is modelled in three steps. The exchange of each
  branch, up to the parsed reply of the completing request (lines 50 to 74 for login, 84 to
  109 for registration): it yields the credential of the authenticator and that reply.
  Then the branch's verification of the reply, and last the two checks after the
  branches. The result is the triple \<^verbatim>\<open>{ publicKeyX, publicKeyY, credId }\<close>; the
  coordinates are still what the server sent. The \<^verbatim>\<open>console.log\<close> of the login reply is
  left out.
\<close>

definition loginExchange :: "platform \<Rightarrow> WebAuthnAccountParams \<Rightarrow> (credential \<times> jsval) io" where
  "loginExchange pf p =
     bind_io (fetch pf (passkeyServerUrl p @ ''/api/auth/start'') No_body) (\<lambda>loginOptions.
     bind_io (pure_io (get_prop loginOptions ''options'')) (\<lambda>options.
     bind_io (authenticate (signWithAuthenticator p) options) (\<lambda>loginCred.
     bind_io (pure_io (get_prop loginOptions ''requestId'')) (\<lambda>requestId.
     bind_io (fetch pf (passkeyServerUrl p @ ''/api/auth/complete'')
                (Auth_complete_body requestId loginCred)) (\<lambda>loginVerifyResult.
     return_io (loginCred, loginVerifyResult))))))"

definition loginBranch :: "platform \<Rightarrow> WebAuthnAccountParams \<Rightarrow> (jsval \<times> jsval \<times> string) io" where
  "loginBranch pf p =
     bind_io (loginExchange pf p) (\<lambda>(loginCred, loginVerifyResult).
     if \<not> truthy loginVerifyResult then throw_io (Error ''Login not verified'')
     else
       bind_io (pure_io (get_prop loginVerifyResult ''accessToken'')) (\<lambda>accessToken.
       if \<not> truthy accessToken then throw_io (Error ''Login not verified'')
       else
         bind_io (pure_io (get_prop loginVerifyResult ''publicKeyX'')) (\<lambda>publicKeyX.
         bind_io (pure_io (get_prop loginVerifyResult ''publicKeyY'')) (\<lambda>publicKeyY.
         return_io (publicKeyX, publicKeyY, cred_id loginCred)))))"

definition registerExchange :: "platform \<Rightarrow> WebAuthnAccountParams \<Rightarrow> (credential \<times> jsval) io" where
  "registerExchange pf p =
     bind_io (fetch pf (passkeyServerUrl p @ ''/api/users/register/start'')
                (Username_body (passkeyName p))) (\<lambda>registerOptions.
     bind_io (pure_io (get_prop registerOptions ''options'')) (\<lambda>options.
     bind_io (authenticate (signWithAuthenticator p) options) (\<lambda>registerCred.
     bind_io (pure_io (get_prop registerOptions ''requestId'')) (\<lambda>requestId.
     bind_io (fetch pf (passkeyServerUrl p @ ''/api/users/register/complete'')
                (Register_complete_body registerCred requestId)) (\<lambda>registerVerifyResult.
     return_io (registerCred, registerVerifyResult))))))"

definition registerBranch :: "platform \<Rightarrow> WebAuthnAccountParams \<Rightarrow> (jsval \<times> jsval \<times> string) io" where
  "registerBranch pf p =
     bind_io (registerExchange pf p) (\<lambda>(registerCred, registerVerifyResult).
     bind_io (pure_io (get_prop registerVerifyResult ''verified'')) (\<lambda>verified.
     if \<not> truthy verified then throw_io (Error ''Registration not verified'')
     else
       bind_io (pure_io (get_prop registerVerifyResult ''publicKeyX'')) (\<lambda>publicKeyX.
       bind_io (pure_io (get_prop registerVerifyResult ''publicKeyY'')) (\<lambda>publicKeyY.
       return_io (publicKeyX, publicKeyY, cred_id registerCred)))))"

definition loginOrRegisterWithWebAuthn ::
  "platform \<Rightarrow> WebAuthnAccountParams \<Rightarrow> (jsval \<times> jsval \<times> string) io" where
  "loginOrRegisterWithWebAuthn pf p =
     bind_io (if mode p = Login then loginBranch pf p else registerBranch pf p)
       (\<lambda>(publicKeyX, publicKeyY, cid).
          if \<not> truthy publicKeyX \<or> \<not> truthy publicKeyY
          then throw_io (Error ''No public key returned from registration credential'')
          else if cid = []
          then throw_io (Error ''No credential id returned from registration credential'')
          else return_io (publicKeyX, publicKeyY, cid))"

text \<open>
  The object literal both branches of \<^verbatim>\<open>toWebAuthnKey\<close> return; its fields are evaluated
  in order, so a throwing \<^verbatim>\<open>BigInt\<close> comes before the hash.
\<close>

definition webAuthnKeyOf :: "platform \<Rightarrow> utils \<Rightarrow> jsval \<times> jsval \<times> string \<Rightarrow> error + WebAuthnKey" where
  "webAuthnKeyOf pf u = (\<lambda>(publicKeyX, publicKeyY, cid).
     bind_sum (BigInt pf publicKeyX) (\<lambda>x.
     bind_sum (BigInt pf publicKeyY) (\<lambda>y.
     bind_sum (b64ToBytes u cid) (\<lambda>bytes.
     Inr \<lparr> pubX = x, pubY = y, credId = cid,
           authenticatorIdHash = keccak256 pf (uint8ArrayToHexString u bytes) \<rparr>))))"

definition toWebAuthnKey :: "platform \<Rightarrow> utils \<Rightarrow> WebAuthnAccountParams \<Rightarrow> WebAuthnKey io" where
  "toWebAuthnKey pf u p =
     (case webAuthnKey p of
        Some k \<Rightarrow> return_io k
      | None \<Rightarrow>
          if mode p = Login
          then bind_io (loginOrRegisterWithWebAuthn pf (p\<lparr>webAuthnKey := None\<rparr>))
                 (\<lambda>res. pure_io (webAuthnKeyOf pf u res))
          else bind_io (loginOrRegisterWithWebAuthn pf (p\<lparr>webAuthnKey := None\<rparr>))
                 (\<lambda>res. pure_io (webAuthnKeyOf pf u res)))"

section \<open>Signature codec and signer adapter: \<^verbatim>\<open>toPasskeyValidator.ts\<close>\<close>

text \<open>
  \<^verbatim>\<open>Uint8Array.prototype.toString\<close> joins the elements, each in decimal, with commas.
\<close>

definition decimal_digit :: "nat \<Rightarrow> char" where
  "decimal_digit d = ''0123456789'' ! d"

definition byte_toString :: "8 word \<Rightarrow> string" where
  "byte_toString b =
     (let n = unat b in
      if n < 10 then [decimal_digit n]
      else if n < 100 then [decimal_digit (n div 10), decimal_digit (n mod 10)]
      else [decimal_digit (n div 100), decimal_digit (n div 10 mod 10), decimal_digit (n mod 10)])"

fun join_comma :: "string list \<Rightarrow> string" where
  "join_comma [] = []"
| "join_comma [x] = x"
| "join_comma (x # y # ys) = x @ '','' @ join_comma (y # ys)"

definition uint8Array_toString :: "8 word list \<Rightarrow> string" where
  "uint8Array_toString bs = join_comma (map byte_toString bs)"

text \<open>
  Lines 49 to 61 of \<^verbatim>\<open>signMessageUsingWebAuthn\<close>: the text taken from the message. A
  string is itself; an object is read through \<^verbatim>\<open>raw\<close>; \<^verbatim>\<open>"raw" in message\<close> is false for
  an array or a typed array and a \<^verbatim>\<open>TypeError\<close> for any other primitive.
\<close>

definition messageContent :: "jsval \<Rightarrow> error + string" where
  "messageContent message =
     (case message of
        JStr s \<Rightarrow> Inr s
      | JObj kvs \<Rightarrow>
          (case map_of kvs ''raw'' of
             Some (JStr s) \<Rightarrow> Inr s
           | Some (JBytes bs) \<Rightarrow> Inr (uint8Array_toString bs)
           | _ \<Rightarrow> Inl (Error ''Unsupported message format''))
      | JArr xs \<Rightarrow> Inl (Error ''Unsupported message format'')
      | JBytes bs \<Rightarrow> Inl (Error ''Unsupported message format'')
      | _ \<Rightarrow> Inl TypeError)"

text \<open>Lines 64 to 66: \<^verbatim>\<open>startsWith("0x") ? slice(2) : messageContent\<close>.\<close>

definition formattedMessage :: "string \<Rightarrow> string" where
  "formattedMessage content = (if take 2 content = ''0x'' then drop 2 content else content)"

text \<open>Lines 74 to 79: the assertion options handed to the authenticator.\<close>

definition assertionOptions :: "string \<Rightarrow> jsval \<Rightarrow> jsval" where
  "assertionOptions challenge allowCredentials =
     JObj [(''challenge'', JStr challenge),
           (''allowCredentials'', allowCredentials),
           (''userVerification'', JStr ''required'')]"

text \<open>The order of the P-256 group, the \<open>n\<close> of the curve.\<close>

definition curveOrder :: int where
  "curveOrder = 115792089210356248762697446949407573529996955224135760342422259061068512044369"

text \<open>
  Modelled from the spec: \<^verbatim>\<open>parseAndNormalizeSig\<close> of the missing \<^verbatim>\<open>./utils\<close>. The spec:
  "parse as a DER or raw ECDSA signature into (r, s); normalize s: if s is greater than
  half the curve order, replace it with curveOrder - s". The parser is the parameter
  \<open>parseSignature\<close>; half the order is the integer quotient.
\<close>

definition parseAndNormalizeSig :: "utils \<Rightarrow> string \<Rightarrow> error + int \<times> int" where
  "parseAndNormalizeSig u signatureHex =
     bind_sum (parseSignature u signatureHex) (\<lambda>(r, s).
       Inr (r, if s > curveOrder div 2 then curveOrder - s else s))"

text \<open>
  Modelled from the spec: \<^verbatim>\<open>isRIP7212SupportedNetwork\<close> of the missing \<^verbatim>\<open>./utils\<close>. The spec:
  "true only if the target chain is known to support a native P-256 verification
  precompile (a static allow-list of chain ids); false otherwise". The list is the
  parameter \<open>rip7212_chain_ids\<close>.
\<close>

definition isRIP7212SupportedNetwork :: "utils \<Rightarrow> nat \<Rightarrow> bool" where
  "isRIP7212SupportedNetwork u chainId = (chainId \<in> set (rip7212_chain_ids u))"

text \<open>
  Lines 90 to 124: from the authenticator's reply to the value list that is encoded.
  \<^verbatim>\<open>BigInt\<close> of a value that is a bigint already is that value.
\<close>

definition signatureValues ::
  "platform \<Rightarrow> utils \<Rightarrow> nat \<Rightarrow> authentication_response \<Rightarrow> error + abi_value list" where
  "signatureValues pf u chainId cred =
     bind_sum (b64ToBytes u (authenticatorData (response cred))) (\<lambda>authenticatorDataBytes.
     bind_sum (atob pf (clientDataJSON (response cred))) (\<lambda>clientDataText.
     bind_sum (findQuoteIndices u clientDataText) (\<lambda>(beforeType, beforeChallenge).
     bind_sum (b64ToBytes u (signature (response cred))) (\<lambda>signatureBytes.
     bind_sum (parseAndNormalizeSig u (uint8ArrayToHexString u signatureBytes)) (\<lambda>(r, s).
     Inr [Abi_bytes (uint8ArrayToHexString u authenticatorDataBytes),
          Abi_string clientDataText,
          Abi_uint256 beforeType,
          Abi_uint256 r,
          Abi_uint256 s,
          Abi_bool (isRIP7212SupportedNetwork u chainId)])))))"

text \<open>
  \<^verbatim>\<open>signMessageUsingWebAuthn\<close>. The server URL is passed and never used (the source marks it
  deprecated). Without an injected \<^verbatim>\<open>signWithAuthenticator\<close> the browser's
  \<^verbatim>\<open>startAuthentication\<close> is invoked.
\<close>

definition signMessageUsingWebAuthn ::
  "platform \<Rightarrow> utils \<Rightarrow> jsval \<Rightarrow> string \<Rightarrow> nat \<Rightarrow> jsval \<Rightarrow>
   (jsval \<Rightarrow> error + authentication_response) option \<Rightarrow> string io" where
  "signMessageUsingWebAuthn pf u message serverUrl chainId allowCredentials injected =
     bind_io (pure_io (messageContent message)) (\<lambda>content.
     bind_io (pure_io (hexStringToUint8Array u (formattedMessage content))) (\<lambda>bytes.
     bind_io (authenticate (case injected of Some invoke \<Rightarrow> invoke | None \<Rightarrow> startAuthentication pf)
                (assertionOptions (base64FromArrayBuffer u bytes True) allowCredentials)) (\<lambda>cred.
     bind_io (pure_io (signatureValues pf u chainId cred)) (\<lambda>vals.
     pure_io (encodeAbiParameters pf vals)))))"

text \<open>
  The argument object of \<^verbatim>\<open>toPasskeyValidator\<close>; \<^verbatim>\<open>validatorAddress\<close>, \<^verbatim>\<open>credentials\<close>
  and \<^verbatim>\<open>signWithAuthenticator\<close> are optional.
\<close>

record PasskeyValidatorParams =
  pv_webAuthnKey :: WebAuthnKey
  pv_passkeyServerUrl :: string
  pv_entryPoint :: string
  pv_validatorAddress :: "string option"
  pv_credentials :: "string option"
  pv_signWithAuthenticator :: "(jsval \<Rightarrow> error + authentication_response) option"

text \<open>
  The validator object: a record of the methods as closures over what the constructor
  captured. A method without arguments and without effects is its result. The methods
  \<^verbatim>\<open>signTypedData\<close> and \<^verbatim>\<open>signUserOperation\<close> hash with library code and then call
  \<^verbatim>\<open>signMessage\<close>; they are left out.
\<close>

record validator =
  validatorType :: string
  address :: string
  source :: string
  getIdentifier :: string
  getEnableData :: "error + string"
  getNonceKey :: "int option \<Rightarrow> int"
  signMessage :: "jsval \<Rightarrow> string io"
  signTransaction :: "jsval \<Rightarrow> jsval \<Rightarrow> string io"
  getDummySignature :: "error + string"
  isEnabled :: "string \<Rightarrow> string \<Rightarrow> bool"
  getSerializedData :: string

text \<open>
  The literals of \<^verbatim>\<open>getDummySignature\<close>. Both constructors write the same authenticator
  data, client data text, \<open>r\<close> and \<open>s\<close>.
\<close>

definition dummyAuthenticatorData :: string where
  "dummyAuthenticatorData =
     ''0x49960de5880e8c687434170f6476605b8fe4aeb9a28632c7995cf3ba831d97631d00000000''"

definition dummyClientDataJSON :: string where
  \<open>dummyClientDataJSON =
     ''{"type":"webauthn.get","challenge":"tbxXNFS9X_4Byr1cMwqKrIGB-_30a0QhZ6y7ucM0BOE","origin":"http://localhost:3000","crossOrigin":false}''\<close>

definition dummyR :: int where
  "dummyR = 44941127272049826721201904734628716258498742255959991581049806490182030242267"

definition dummyS :: int where
  "dummyS = 9910254599581058084911561569808925251374718953855182016200087235935345969636"

text \<open>
  The client is what \<^verbatim>\<open>getChainId(client)\<close> resolves to: a chain id, or the rejection.
\<close>

type_synonym client = "error + nat"

text \<open>
  The object \<^verbatim>\<open>getSerializedData\<close> of \<^verbatim>\<open>toPasskeyValidator\<close> hands to the serializer
  (lines 288 to 298), with the defaults of \<^verbatim>\<open>credentials\<close> and \<^verbatim>\<open>validatorAddress\<close> filled in.
\<close>

definition serializedDataOf :: "utils \<Rightarrow> PasskeyValidatorParams \<Rightarrow> PasskeyValidatorSerializedData" where
  "serializedDataOf u p =
     \<lparr> ser_passkeyServerUrl = pv_passkeyServerUrl p,
       ser_credentials = (case pv_credentials p of Some c \<Rightarrow> c | None \<Rightarrow> ''include''),
       ser_entryPoint = pv_entryPoint p,
       ser_validatorAddress = (case pv_validatorAddress p of
                                 Some a \<Rightarrow> a
                               | None \<Rightarrow> getValidatorAddress u (pv_entryPoint p)),
       ser_pubKeyX = pubX (pv_webAuthnKey p),
       ser_pubKeyY = pubY (pv_webAuthnKey p),
       ser_credId = credId (pv_webAuthnKey p),
       ser_authenticatorIdHash = authenticatorIdHash (pv_webAuthnKey p) \<rparr>"

definition toPasskeyValidator ::
  "platform \<Rightarrow> utils \<Rightarrow> client \<Rightarrow> PasskeyValidatorParams \<Rightarrow> error + validator" where
  "toPasskeyValidator pf u cl p =
     (let key = pv_webAuthnKey p;
          validatorAddress = (case pv_validatorAddress p of
                                Some a \<Rightarrow> a
                              | None \<Rightarrow> getValidatorAddress u (pv_entryPoint p))
      in bind_sum cl (\<lambda>chainId.
         Inr \<lparr> validatorType = ''SECONDARY'',
               address = validatorAddress,
               source = ''WebAuthnValidator'',
               getIdentifier = validatorAddress,
               getEnableData =
                 encodeAbiParameters pf
                   [Abi_tuple [Abi_uint256 (pubX key), Abi_uint256 (pubY key)],
                    Abi_bytes32 (authenticatorIdHash key)],
               getNonceKey =
                 (\<lambda>customNonceKey. case customNonceKey of
                    Some n \<Rightarrow> if n \<noteq> 0 then n else 0
                  | None \<Rightarrow> 0),
               signMessage =
                 (\<lambda>message. signMessageUsingWebAuthn pf u message (pv_passkeyServerUrl p) chainId
                    (JArr [JObj [(''id'', JStr (credId key)), (''type'', JStr ''public-key'')]])
                    (pv_signWithAuthenticator p)),
               signTransaction = (\<lambda>_ _. throw_io SignTransactionNotSupportedBySmartAccount),
               getDummySignature =
                 encodeAbiParameters pf
                   [Abi_bytes dummyAuthenticatorData,
                    Abi_string dummyClientDataJSON,
                    Abi_uint256 0,
                    Abi_uint256 dummyR,
                    Abi_uint256 dummyS,
                    Abi_bool False],
               isEnabled = (\<lambda>_ _. False),
               getSerializedData = serializePasskeyValidatorData u (serializedDataOf u p) \<rparr>))"

definition deserializePasskeyValidator ::
  "platform \<Rightarrow> utils \<Rightarrow> client \<Rightarrow> string \<Rightarrow> string \<Rightarrow>
   (jsval \<Rightarrow> error + authentication_response) option \<Rightarrow> error + validator" where
  "deserializePasskeyValidator pf u cl serializedData entryPointAddress injected =
     bind_sum (deserializePasskeyValidatorData u serializedData) (\<lambda>d.
     bind_sum cl (\<lambda>chainId.
       Inr \<lparr> validatorType = ''SECONDARY'',
             address = ser_validatorAddress d,
             source = ''WebAuthnValidator'',
             getIdentifier = ser_validatorAddress d,
             getEnableData =
               encodeAbiParameters pf
                 [Abi_tuple [Abi_uint256 (ser_pubKeyX d), Abi_uint256 (ser_pubKeyY d)],
                  Abi_bytes32 (ser_authenticatorIdHash d)],
             getNonceKey = (\<lambda>_. 0),
             signMessage =
               (\<lambda>message. signMessageUsingWebAuthn pf u message (ser_passkeyServerUrl d) chainId
                  (JArr [JObj [(''id'', JStr (ser_credId d)), (''type'', JStr ''public-key'')]])
                  injected),
             signTransaction = (\<lambda>_ _. throw_io SignTransactionNotSupportedBySmartAccount),
             getDummySignature =
               encodeAbiParameters pf
                 [Abi_bytes dummyAuthenticatorData,
                  Abi_string dummyClientDataJSON,
                  Abi_uint256 1,
                  Abi_uint256 dummyR,
                  Abi_uint256 dummyS,
                  Abi_bool False],
             isEnabled = (\<lambda>_ _. False),
             getSerializedData =
               serializePasskeyValidatorData u
                 \<lparr> ser_passkeyServerUrl = ser_passkeyServerUrl d,
                   ser_credentials = ser_credentials d,
                   ser_entryPoint = ser_entryPoint d,
                   ser_validatorAddress = ser_validatorAddress d,
                   ser_pubKeyX = ser_pubKeyX d,
                   ser_pubKeyY = ser_pubKeyY d,
                   ser_credId = ser_credId d,
                   ser_authenticatorIdHash = ser_authenticatorIdHash d \<rparr> \<rparr>))"

section \<open>A scripted world\<close>

text \<open>
  Concrete collaborators, to run the definitions on: a passkey server that answers the
  opening request of a ceremony with options and a request id and the completing request
  with a given reply, an authenticator that always returns the same credential, and
  stand-ins for the library functions and the helpers of \<^verbatim>\<open>./utils\<close>. The stand-ins are
  tables for the few values of this world (\<^verbatim>\<open>AQID\<close> is the URL-safe base64 of the bytes 1,
  2, 3); the hash and the encoder are placeholders, and the serializer knows one
  configuration.
\<close>

definition sample_start_reply :: jsval where
  "sample_start_reply =
     JObj [(''options'', JObj [(''challenge'', JStr ''c2FtcGxl'')]), (''requestId'', JStr ''req-1'')]"

definition sample_credential :: credential where
  "sample_credential = \<lparr> cred_id = ''AQID'', cred_json = JObj [(''id'', JStr ''AQID'')] \<rparr>"

definition sample_server :: "jsval \<Rightarrow> string \<Rightarrow> body \<Rightarrow> error + jsval" where
  "sample_server reply url b =
     (case b of
        Auth_complete_body requestId cred \<Rightarrow> Inr reply
      | Register_complete_body cred requestId \<Rightarrow> Inr reply
      | _ \<Rightarrow> Inr sample_start_reply)"

definition sample_assertion :: authentication_response where
  "sample_assertion =
     \<lparr> response = \<lparr> authenticatorData = ''SZYN'', clientDataJSON = ''e30'', signature = ''MEQC'' \<rparr> \<rparr>"

definition sample_platform :: "jsval \<Rightarrow> platform" where
  "sample_platform reply =
     \<lparr> fetch_json = sample_server reply,
       startAuthentication = (\<lambda>opts. Inr sample_assertion),
       atob = (\<lambda>s. Inr ''{}''),
       BigInt = (\<lambda>v. if v = JStr ''0x1'' then Inr 1 else if v = JStr ''0x2'' then Inr 2
                     else Inl (Rejected ''SyntaxError'')),
       keccak256 = (\<lambda>hex. ''0x'' @ rev hex),
       encodeAbiParameters = (\<lambda>vals. Inr (''0x'' @ replicate (length vals) (CHR ''0''))) \<rparr>"

definition sample_params :: "WebAuthnMode \<Rightarrow> WebAuthnAccountParams" where
  "sample_params m =
     \<lparr> passkeyName = ''alice'',
       passkeyServerUrl = ''https://passkeys.example'',
       webAuthnKey = None,
       mode = m,
       signWithAuthenticator = (\<lambda>opts. Inr sample_credential) \<rparr>"

definition sample_login_trace :: "event list" where
  "sample_login_trace =
     [Fetch ''https://passkeys.example/api/auth/start'' No_body,
      Authenticator (JObj [(''challenge'', JStr ''c2FtcGxl'')]),
      Fetch ''https://passkeys.example/api/auth/complete''
        (Auth_complete_body (JStr ''req-1'') sample_credential)]"

definition sample_register_trace :: "event list" where
  "sample_register_trace =
     [Fetch ''https://passkeys.example/api/users/register/start'' (Username_body ''alice''),
      Authenticator (JObj [(''challenge'', JStr ''c2FtcGxl'')]),
      Fetch ''https://passkeys.example/api/users/register/complete''
        (Register_complete_body sample_credential (JStr ''req-1''))]"

definition sample_login_reply :: jsval where
  "sample_login_reply =
     JObj [(''accessToken'', JStr ''token''), (''publicKeyX'', JStr ''0x1''), (''publicKeyY'', JStr ''0x2'')]"

definition sample_key :: WebAuthnKey where
  "sample_key = \<lparr> pubX = 1, pubY = 2, credId = ''AQID'', authenticatorIdHash = ''0x302010x0'' \<rparr>"

definition sample_entryPoint :: string where
  "sample_entryPoint = ''0x5FF137D4b0FDCD49DcA30c7CF57E578a026d2789''"

definition sample_allowCredentials :: jsval where
  "sample_allowCredentials = JArr [JObj [(''id'', JStr ''AQID''), (''type'', JStr ''public-key'')]]"

definition sample_validator_params :: PasskeyValidatorParams where
  "sample_validator_params =
     \<lparr> pv_webAuthnKey = sample_key,
       pv_passkeyServerUrl = ''https://passkeys.example'',
       pv_entryPoint = ''0x5FF137D4b0FDCD49DcA30c7CF57E578a026d2789'',
       pv_validatorAddress = Some ''0xD990393C670dCcE8b4d8F858FB98c9912dBFAa06'',
       pv_credentials = None,
       pv_signWithAuthenticator = None \<rparr>"

definition sample_utils :: utils where
  "sample_utils =
     \<lparr> b64ToBytes = (\<lambda>s. Inr [1, 2, 3]),
       uint8ArrayToHexString = (\<lambda>bytes. ''0x010203''),
       hexStringToUint8Array = (\<lambda>s. Inr [1, 2, 3]),
       base64FromArrayBuffer = (\<lambda>bytes urlSafe. ''AQID''),
       findQuoteIndices = (\<lambda>s. Inr (1, 23)),
       parseSignature = (\<lambda>s. Inr (5, curveOrder - 7)),
       rip7212_chain_ids = [137],
       getValidatorAddress = (\<lambda>entryPoint. ''0xD990393C670dCcE8b4d8F858FB98c9912dBFAa06''),
       serializePasskeyValidatorData = (\<lambda>d. ''blob''),
       deserializePasskeyValidatorData =
         (\<lambda>s. if s = ''blob''
              then Inr \<lparr> ser_passkeyServerUrl = ''https://passkeys.example'',
                         ser_credentials = ''include'',
                         ser_entryPoint = ''0x5FF137D4b0FDCD49DcA30c7CF57E578a026d2789'',
                         ser_validatorAddress = ''0xD990393C670dCcE8b4d8F858FB98c9912dBFAa06'',
                         ser_pubKeyX = 1,
                         ser_pubKeyY = 2,
                         ser_credId = ''AQID'',
                         ser_authenticatorIdHash = ''0x302010x0'' \<rparr>
              else Inl (Rejected ''SyntaxError'')) \<rparr>"

text \<open>
  A second encoder, which writes the values out one after the other so that different
  value lists give different texts (a number \<open>n\<close> as \<open>n\<close> strokes), and a second set of
  helpers whose signature parser returns an \<open>s\<close> in the lower half.
\<close>

fun sample_render :: "abi_value \<Rightarrow> string" where
  "sample_render (Abi_bytes h) = ''bytes:'' @ h"
| "sample_render (Abi_string s) = ''string:'' @ s"
| "sample_render (Abi_uint256 n) = ''uint256:'' @ replicate (nat n) (CHR ''I'')"
| "sample_render (Abi_bool b) = (if b then ''bool:1'' else ''bool:0'')"
| "sample_render (Abi_bytes32 h) = ''bytes32:'' @ h"
| "sample_render (Abi_tuple vs) = ''tuple:'' @ concat (map sample_render vs)"

definition sample_signing_platform :: platform where
  "sample_signing_platform =
     (sample_platform JNull)
       \<lparr> encodeAbiParameters := (\<lambda>vals. Inr (concat (map (\<lambda>v. sample_render v @ '';'') vals))) \<rparr>"

definition sample_utils_low_s :: utils where
  "sample_utils_low_s = sample_utils \<lparr> parseSignature := (\<lambda>s. Inr (5, 3)) \<rparr>"

section \<open>Running the effect combinators\<close>

lemma bind_io_return [simp]: "bind_io (return_io x) f = f x"
  by (simp add: bind_io_def return_io_def split: prod.splits)

lemma bind_io_throw [simp]: "bind_io (throw_io e) f = throw_io e"
  by (simp add: bind_io_def throw_io_def)

lemma bind_io_pure_Inr [simp]: "bind_io (pure_io (Inr x)) f = f x"
  by (simp add: bind_io_def pure_io_def split: prod.splits)

lemma bind_io_pure_Inl [simp]: "bind_io (pure_io (Inl e)) f = throw_io e"
  by (simp add: bind_io_def pure_io_def throw_io_def)

lemma bind_io_perform_Inr [simp]:
  "bind_io (perform ev (Inr x)) f = (fst (f x), ev # snd (f x))"
  by (simp add: bind_io_def perform_def split: prod.splits)

lemma bind_io_perform_Inl [simp]: "bind_io (perform ev (Inl e)) f = (Inl e, [ev])"
  by (simp add: bind_io_def perform_def)

lemma bind_io_Pair_Inr [simp]: "bind_io (Inr x, t) f = (fst (f x), t @ snd (f x))"
  by (simp add: bind_io_def split: prod.splits)

lemma bind_io_Pair_Inl [simp]: "bind_io (Inl e, t) f = (Inl e, t)"
  by (simp add: bind_io_def)

lemma fst_throw_io [simp]: "fst (throw_io e) = Inl e"
  by (simp add: throw_io_def)

lemma snd_throw_io [simp]: "snd (throw_io e) = []"
  by (simp add: throw_io_def)

lemma fst_return_io [simp]: "fst (return_io x) = Inr x"
  by (simp add: return_io_def)

lemma snd_return_io [simp]: "snd (return_io x) = []"
  by (simp add: return_io_def)

lemma fst_pure_io [simp]: "fst (pure_io r) = r"
  by (simp add: pure_io_def)

lemma snd_pure_io [simp]: "snd (pure_io r) = []"
  by (simp add: pure_io_def)

lemma bind_sum_Inr [simp]: "bind_sum (Inr x) f = f x"
  by (simp add: bind_sum_def)

lemma bind_sum_Inl [simp]: "bind_sum (Inl e) f = Inl e"
  by (simp add: bind_sum_def)

lemma bind_io_InrE:
  assumes "bind_io m f = (Inr y, evs)"
  obtains x t t' where "m = (Inr x, t)" and "f x = (Inr y, t')" and "evs = t @ t'"
  using assms by (auto simp: bind_io_def split: prod.splits sum.splits)

lemma bind_sum_eq_Inr: "bind_sum m f = Inr y \<longleftrightarrow> (\<exists>x. m = Inr x \<and> f x = Inr y)"
  by (cases m) (simp_all add: bind_sum_def)

section \<open>Facts about the ceremonies\<close>

text \<open>The ceremony never reads the \<^verbatim>\<open>webAuthnKey\<close> argument.\<close>

lemma loginOrRegister_ignores_key:
  "loginOrRegisterWithWebAuthn pf (p\<lparr>webAuthnKey := w\<rparr>) = loginOrRegisterWithWebAuthn pf p"
  by (simp add: loginOrRegisterWithWebAuthn_def loginBranch_def registerBranch_def
      loginExchange_def registerExchange_def)

lemma toWebAuthnKey_fails:
  assumes "loginOrRegisterWithWebAuthn pf p = (Inl e, evs)"
  shows "toWebAuthnKey pf u (p\<lparr>webAuthnKey := None\<rparr>) = (Inl e, evs)"
  using assms by (simp add: toWebAuthnKey_def loginOrRegister_ignores_key)

lemma login_rejected:
  assumes "mode p = Login"
    and "loginExchange pf p = (Inr (cred, res), evs)"
    and "\<not> truthy res \<or> (\<exists>tok. get_prop res ''accessToken'' = Inr tok \<and> \<not> truthy tok)"
  shows "loginOrRegisterWithWebAuthn pf p = (Inl (Error ''Login not verified''), evs)"
  using assms
  by (auto simp: loginOrRegisterWithWebAuthn_def loginBranch_def split: if_splits)

lemma register_rejected:
  assumes "mode p = Register"
    and "registerExchange pf p = (Inr (cred, res), evs)"
    and "get_prop res ''verified'' = Inr verified" and "\<not> truthy verified"
  shows "loginOrRegisterWithWebAuthn pf p = (Inl (Error ''Registration not verified''), evs)"
  using assms
  by (auto simp: loginOrRegisterWithWebAuthn_def registerBranch_def split: if_splits)

lemma register_missing_key:
  assumes "mode p = Register"
    and "registerExchange pf p = (Inr (cred, res), evs)"
    and "get_prop res ''verified'' = Inr verified" and "truthy verified"
    and "get_prop res ''publicKeyX'' = Inr x" and "get_prop res ''publicKeyY'' = Inr y"
    and "\<not> truthy x \<or> \<not> truthy y"
  shows "loginOrRegisterWithWebAuthn pf p =
           (Inl (Error ''No public key returned from registration credential''), evs)"
  using assms
  by (auto simp: loginOrRegisterWithWebAuthn_def registerBranch_def split: if_splits)

lemma login_missing_key:
  assumes "mode p = Login"
    and "loginExchange pf p = (Inr (cred, res), evs)"
    and "truthy res"
    and "get_prop res ''accessToken'' = Inr tok" and "truthy tok"
    and "get_prop res ''publicKeyX'' = Inr x" and "get_prop res ''publicKeyY'' = Inr y"
    and "\<not> truthy x \<or> \<not> truthy y"
  shows "loginOrRegisterWithWebAuthn pf p =
           (Inl (Error ''No public key returned from registration credential''), evs)"
  using assms
  by (auto simp: loginOrRegisterWithWebAuthn_def loginBranch_def split: if_splits)

text \<open>A ceremony that returns has taken its credential id from the authenticator's credential.\<close>

lemma loginBranch_credential:
  assumes "loginBranch pf p = (Inr (x, y, c), evs)"
  shows "\<exists>cred res t. loginExchange pf p = (Inr (cred, res), t) \<and> c = cred_id cred"
  using assms unfolding loginBranch_def
  by (fastforce elim!: bind_io_InrE simp: pure_io_def return_io_def throw_io_def split: if_splits)

lemma registerBranch_credential:
  assumes "registerBranch pf p = (Inr (x, y, c), evs)"
  shows "\<exists>cred res t. registerExchange pf p = (Inr (cred, res), t) \<and> c = cred_id cred"
  using assms unfolding registerBranch_def
  by (fastforce elim!: bind_io_InrE simp: pure_io_def return_io_def throw_io_def split: if_splits)

lemma loginOrRegister_credential:
  assumes "loginOrRegisterWithWebAuthn pf p = (Inr (x, y, c), evs)"
  shows "\<exists>cred res t. (if mode p = Login then loginExchange pf p else registerExchange pf p) =
            (Inr (cred, res), t) \<and> c = cred_id cred"
proof -
  from assms obtain r t t' where
    br: "(if mode p = Login then loginBranch pf p else registerBranch pf p) = (Inr r, t)"
    and chk: "(case r of (publicKeyX, publicKeyY, cid) \<Rightarrow>
          if \<not> truthy publicKeyX \<or> \<not> truthy publicKeyY
          then throw_io (Error ''No public key returned from registration credential'')
          else if cid = []
          then throw_io (Error ''No credential id returned from registration credential'')
          else return_io (publicKeyX, publicKeyY, cid)) = (Inr (x, y, c), t')"
    unfolding loginOrRegisterWithWebAuthn_def by (elim bind_io_InrE) blast
  obtain x' y' c' where r: "r = (x', y', c')" by (cases r)
  from chk r have "c' = c"
    by (auto simp: throw_io_def return_io_def split: if_splits)
  with br r show ?thesis
    by (auto dest: loginBranch_credential registerBranch_credential split: if_splits)
qed

lemma webAuthnKeyOf_hash:
  assumes "webAuthnKeyOf pf u (x, y, c) = Inr k"
  shows "credId k = c \<and> (\<exists>bytes. b64ToBytes u c = Inr bytes \<and>
           authenticatorIdHash k = keccak256 pf (uint8ArrayToHexString u bytes))"
  using assms by (auto simp: webAuthnKeyOf_def bind_sum_eq_Inr)

section \<open>Facts about the codec and the adapter\<close>

lemma signatureValues_Inr:
  assumes "signatureValues pf u chainId cred = Inr vals"
  shows "\<exists>authenticatorDataBytes clientDataText beforeType beforeChallenge signatureBytes r s.
           b64ToBytes u (authenticatorData (response cred)) = Inr authenticatorDataBytes \<and>
           atob pf (clientDataJSON (response cred)) = Inr clientDataText \<and>
           findQuoteIndices u clientDataText = Inr (beforeType, beforeChallenge) \<and>
           b64ToBytes u (signature (response cred)) = Inr signatureBytes \<and>
           parseAndNormalizeSig u (uint8ArrayToHexString u signatureBytes) = Inr (r, s) \<and>
           vals = [Abi_bytes (uint8ArrayToHexString u authenticatorDataBytes),
                   Abi_string clientDataText,
                   Abi_uint256 beforeType,
                   Abi_uint256 r,
                   Abi_uint256 s,
                   Abi_bool (chainId \<in> set (rip7212_chain_ids u))]"
  using assms
  by (auto simp: signatureValues_def bind_sum_eq_Inr isRIP7212SupportedNetwork_def)

lemma parseAndNormalizeSig_Inr:
  assumes "parseAndNormalizeSig u signatureHex = Inr (r, s)"
  shows "\<exists>s0. parseSignature u signatureHex = Inr (r, s0) \<and>
           s = (if curveOrder div 2 < s0 then curveOrder - s0 else s0)"
  using assms by (auto simp: parseAndNormalizeSig_def bind_sum_eq_Inr)

lemma low_s_bound: "(if curveOrder div 2 < s0 then curveOrder - s0 else s0) \<le> curveOrder div 2"
  by (simp add: curveOrder_def)

lemma signMessageUsingWebAuthn_Inr:
  assumes "signMessageUsingWebAuthn pf u message serverUrl chainId allowCredentials injected = (Inr sig, evs)"
  shows "\<exists>content bytes cred authenticatorDataBytes clientDataText beforeType beforeChallenge
            signatureBytes r s.
           messageContent message = Inr content \<and>
           hexStringToUint8Array u (formattedMessage content) = Inr bytes \<and>
           evs = [Authenticator (assertionOptions (base64FromArrayBuffer u bytes True) allowCredentials)] \<and>
           (case injected of Some invoke \<Rightarrow> invoke | None \<Rightarrow> startAuthentication pf)
             (assertionOptions (base64FromArrayBuffer u bytes True) allowCredentials) = Inr cred \<and>
           b64ToBytes u (authenticatorData (response cred)) = Inr authenticatorDataBytes \<and>
           atob pf (clientDataJSON (response cred)) = Inr clientDataText \<and>
           findQuoteIndices u clientDataText = Inr (beforeType, beforeChallenge) \<and>
           b64ToBytes u (signature (response cred)) = Inr signatureBytes \<and>
           parseAndNormalizeSig u (uint8ArrayToHexString u signatureBytes) = Inr (r, s) \<and>
           encodeAbiParameters pf
             [Abi_bytes (uint8ArrayToHexString u authenticatorDataBytes),
              Abi_string clientDataText,
              Abi_uint256 beforeType,
              Abi_uint256 r,
              Abi_uint256 s,
              Abi_bool (chainId \<in> set (rip7212_chain_ids u))] = Inr sig"
proof -
  from assms obtain content bytes cred vals where
    content: "messageContent message = Inr content"
    and bytes: "hexStringToUint8Array u (formattedMessage content) = Inr bytes"
    and cred: "(case injected of Some invoke \<Rightarrow> invoke | None \<Rightarrow> startAuthentication pf)
             (assertionOptions (base64FromArrayBuffer u bytes True) allowCredentials) = Inr cred"
    and evs: "evs = [Authenticator (assertionOptions (base64FromArrayBuffer u bytes True) allowCredentials)]"
    and vals: "signatureValues pf u chainId cred = Inr vals"
    and enc: "encodeAbiParameters pf vals = Inr sig"
    unfolding signMessageUsingWebAuthn_def
    by (auto elim!: bind_io_InrE simp: pure_io_def authenticate_def perform_def)
  from signatureValues_Inr [OF vals] content bytes cred evs enc show ?thesis
    by blast
qed

text \<open>
  The other direction: when every helper on the way succeeds, the value list and the
  signature are exactly these.
\<close>

lemma signatureValues_forward:
  assumes "b64ToBytes u (authenticatorData (response cred)) = Inr authenticatorDataBytes"
    and "atob pf (clientDataJSON (response cred)) = Inr clientDataText"
    and "findQuoteIndices u clientDataText = Inr (beforeType, beforeChallenge)"
    and "b64ToBytes u (signature (response cred)) = Inr signatureBytes"
    and "parseAndNormalizeSig u (uint8ArrayToHexString u signatureBytes) = Inr (r, s)"
  shows "signatureValues pf u chainId cred =
           Inr [Abi_bytes (uint8ArrayToHexString u authenticatorDataBytes),
                Abi_string clientDataText,
                Abi_uint256 beforeType,
                Abi_uint256 r,
                Abi_uint256 s,
                Abi_bool (chainId \<in> set (rip7212_chain_ids u))]"
  using assms by (simp add: signatureValues_def isRIP7212SupportedNetwork_def)

lemma parseAndNormalizeSig_forward:
  assumes "parseSignature u signatureHex = Inr (r, s0)"
  shows "parseAndNormalizeSig u signatureHex =
           Inr (r, if curveOrder div 2 < s0 then curveOrder - s0 else s0)"
  using assms by (simp add: parseAndNormalizeSig_def)

lemma signMessage_forward:
  assumes "messageContent message = Inr content"
    and "hexStringToUint8Array u (formattedMessage content) = Inr bytes"
    and "(case injected of Some invoke \<Rightarrow> invoke | None \<Rightarrow> startAuthentication pf)
           (assertionOptions (base64FromArrayBuffer u bytes True) allowCredentials) = Inr cred"
    and "signatureValues pf u chainId cred = Inr vals"
  shows "signMessageUsingWebAuthn pf u message serverUrl chainId allowCredentials injected =
           (encodeAbiParameters pf vals,
            [Authenticator (assertionOptions (base64FromArrayBuffer u bytes True) allowCredentials)])"
  using assms by (simp add: signMessageUsingWebAuthn_def authenticate_def pure_io_def)

lemma toPasskeyValidator_signMessage:
  assumes "toPasskeyValidator pf u cl p = Inr v"
  shows "\<exists>chainId. cl = Inr chainId \<and>
           (\<forall>message. signMessage v message =
              signMessageUsingWebAuthn pf u message (pv_passkeyServerUrl p) chainId
                (JArr [JObj [(''id'', JStr (credId (pv_webAuthnKey p))), (''type'', JStr ''public-key'')]])
                (pv_signWithAuthenticator p))"
  using assms by (auto simp: toPasskeyValidator_def Let_def bind_sum_eq_Inr)

lemma deserializePasskeyValidator_signMessage:
  assumes "deserializePasskeyValidator pf u cl serializedData entryPointAddress injected = Inr v"
  shows "\<exists>chainId d. cl = Inr chainId \<and> deserializePasskeyValidatorData u serializedData = Inr d \<and>
           (\<forall>message. signMessage v message =
              signMessageUsingWebAuthn pf u message (ser_passkeyServerUrl d) chainId
                (JArr [JObj [(''id'', JStr (ser_credId d)), (''type'', JStr ''public-key'')]])
                injected)"
  using assms by (auto simp: deserializePasskeyValidator_def bind_sum_eq_Inr)

text \<open>
  What \<^verbatim>\<open>signMessageUsingWebAuthn\<close> does with the message before anything else: three
  shapes give a text, every other value an exception, and then nothing was invoked.
\<close>

lemma messageContent_accepts:
  "(\<exists>content. messageContent message = Inr content) \<longleftrightarrow>
     (\<exists>s. message = JStr s) \<or>
     (\<exists>kvs s. message = JObj kvs \<and> map_of kvs ''raw'' = Some (JStr s)) \<or>
     (\<exists>kvs bs. message = JObj kvs \<and> map_of kvs ''raw'' = Some (JBytes bs))"
  by (auto simp: messageContent_def split: jsval.splits option.splits)

lemma messageContent_error:
  assumes "messageContent message = Inl e"
  shows "e = Error ''Unsupported message format'' \<or> e = TypeError"
  using assms
  by (auto simp: messageContent_def split: jsval.splits option.splits)

lemma unsupported_message_no_effect:
  assumes "messageContent message = Inl e"
  shows "signMessageUsingWebAuthn pf u message serverUrl chainId allowCredentials injected = (Inl e, [])"
  using assms by (simp add: signMessageUsingWebAuthn_def throw_io_def)

section \<open>The scripted world, run\<close>

lemma sample_loginExchange:
  "loginExchange (sample_platform reply) (sample_params m) =
     (Inr (sample_credential, reply), sample_login_trace)"
  by (simp add: loginExchange_def sample_platform_def sample_params_def sample_server_def
      sample_start_reply_def sample_login_trace_def fetch_def authenticate_def return_io_def)

lemma sample_registerExchange:
  "registerExchange (sample_platform reply) (sample_params m) =
     (Inr (sample_credential, reply), sample_register_trace)"
  by (simp add: registerExchange_def sample_platform_def sample_params_def sample_server_def
      sample_start_reply_def sample_register_trace_def fetch_def authenticate_def return_io_def)

lemma sample_mode [simp]: "mode (sample_params m) = m"
  by (simp add: sample_params_def)

lemma sample_webAuthnKey [simp]: "webAuthnKey (sample_params m) = None"
  by (simp add: sample_params_def)

lemma sample_login_ceremony:
  "loginOrRegisterWithWebAuthn (sample_platform sample_login_reply) (sample_params Login) =
     (Inr (JStr ''0x1'', JStr ''0x2'', ''AQID''), sample_login_trace)"
  by (simp add: loginOrRegisterWithWebAuthn_def loginBranch_def sample_loginExchange
      sample_login_reply_def sample_credential_def)

lemma sample_login_run:
  "toWebAuthnKey (sample_platform sample_login_reply) sample_utils (sample_params Login) =
     (Inr sample_key, sample_login_trace)"
  by (simp add: toWebAuthnKey_def loginOrRegister_ignores_key sample_login_ceremony)
     (simp add: webAuthnKeyOf_def sample_platform_def sample_utils_def sample_key_def pure_io_def)

lemmas sample_world_defs =
  sample_platform_def sample_signing_platform_def sample_utils_def sample_utils_low_s_def
  sample_assertion_def

lemma sample_toPasskeyValidator:
  "\<exists>v. toPasskeyValidator (sample_platform JNull) sample_utils (Inr 137) sample_validator_params = Inr v"
  by (simp add: toPasskeyValidator_def Let_def)

lemma sample_deserializePasskeyValidator:
  "\<exists>v. deserializePasskeyValidator (sample_platform JNull) sample_utils (Inr 137) ''blob''
          sample_entryPoint None = Inr v"
  by (simp add: deserializePasskeyValidator_def sample_utils_def)

lemma sample_signing_toPasskeyValidator:
  "\<exists>v. toPasskeyValidator sample_signing_platform sample_utils (Inr 1) sample_validator_params = Inr v"
  by (simp add: toPasskeyValidator_def Let_def)

lemma sample_signing_deserializePasskeyValidator:
  "\<exists>v. deserializePasskeyValidator sample_signing_platform sample_utils (Inr 1) ''blob''
          sample_entryPoint None = Inr v"
  by (simp add: deserializePasskeyValidator_def sample_utils_def)

lemma sample_roundtrip:
  "deserializePasskeyValidatorData sample_utils
     (serializePasskeyValidatorData sample_utils (serializedDataOf sample_utils sample_validator_params)) =
   Inr (serializedDataOf sample_utils sample_validator_params)"
  by (simp add: sample_utils_def serializedDataOf_def sample_validator_params_def sample_key_def)

section \<open>The claims\<close>

subsection \<open>Signature codec\<close>

text \<open>
  C1. Low-S normalization on the codec path. The normalization is the one the spec
  describes for \<^verbatim>\<open>parseAndNormalizeSig\<close>, whose source is missing: a parsed \<open>(r, s0)\<close> becomes
  \<open>(r, curveOrder - s0)\<close> when \<open>s0\<close> is greater than half the curve order and stays \<open>(r, s0)\<close>
  otherwise, and the result is at most \<open>curveOrder div 2\<close>. Whenever the helpers on the way
  succeed and the signature of the assertion parses to \<open>(r, s0)\<close>, the value list built by
  \<^verbatim>\<open>signMessageUsingWebAuthn\<close> carries exactly that normalized \<open>s\<close>, and the function returns
  the encoding of that list after one authenticator invocation. Conversely every value
  list it builds, and every signature it returns, carries an \<open>s\<close> of at most
  \<open>curveOrder div 2\<close> that arose from a parsed \<open>s0\<close> in this way.
\<close>

theorem low_s_normalization:
  "(parseSignature u signatureHex = Inr (r, s0)
      \<longrightarrow> parseAndNormalizeSig u signatureHex =
            Inr (r, if curveOrder div 2 < s0 then curveOrder - s0 else s0) \<and>
          (if curveOrder div 2 < s0 then curveOrder - s0 else s0) \<le> curveOrder div 2) \<and>
   (b64ToBytes u (authenticatorData (response cred)) = Inr authenticatorDataBytes \<and>
    atob pf (clientDataJSON (response cred)) = Inr clientDataText \<and>
    findQuoteIndices u clientDataText = Inr (beforeType, beforeChallenge) \<and>
    b64ToBytes u (signature (response cred)) = Inr signatureBytes \<and>
    parseSignature u (uint8ArrayToHexString u signatureBytes) = Inr (r, s0)
      \<longrightarrow> signatureValues pf u chainId cred =
            Inr [Abi_bytes (uint8ArrayToHexString u authenticatorDataBytes),
                 Abi_string clientDataText,
                 Abi_uint256 beforeType,
                 Abi_uint256 r,
                 Abi_uint256 (if curveOrder div 2 < s0 then curveOrder - s0 else s0),
                 Abi_bool (chainId \<in> set (rip7212_chain_ids u))]) \<and>
   (messageContent message = Inr content \<and>
    hexStringToUint8Array u (formattedMessage content) = Inr bytes \<and>
    (case injected of Some invoke \<Rightarrow> invoke | None \<Rightarrow> startAuthentication pf)
      (assertionOptions (base64FromArrayBuffer u bytes True) allowCredentials) = Inr cred \<and>
    b64ToBytes u (authenticatorData (response cred)) = Inr authenticatorDataBytes \<and>
    atob pf (clientDataJSON (response cred)) = Inr clientDataText \<and>
    findQuoteIndices u clientDataText = Inr (beforeType, beforeChallenge) \<and>
    b64ToBytes u (signature (response cred)) = Inr signatureBytes \<and>
    parseSignature u (uint8ArrayToHexString u signatureBytes) = Inr (r, s0)
      \<longrightarrow> signMessageUsingWebAuthn pf u message serverUrl chainId allowCredentials injected =
            (encodeAbiParameters pf
               [Abi_bytes (uint8ArrayToHexString u authenticatorDataBytes),
                Abi_string clientDataText,
                Abi_uint256 beforeType,
                Abi_uint256 r,
                Abi_uint256 (if curveOrder div 2 < s0 then curveOrder - s0 else s0),
                Abi_bool (chainId \<in> set (rip7212_chain_ids u))],
             [Authenticator (assertionOptions (base64FromArrayBuffer u bytes True) allowCredentials)])) \<and>
   (signatureValues pf u chainId cred = Inr vals
      \<longrightarrow> (\<exists>sb r' s0' s a c t b.
             b64ToBytes u (signature (response cred)) = Inr sb \<and>
             parseSignature u (uint8ArrayToHexString u sb) = Inr (r', s0') \<and>
             vals = [Abi_bytes a, Abi_string c, Abi_uint256 t, Abi_uint256 r', Abi_uint256 s, Abi_bool b] \<and>
             (curveOrder div 2 < s0' \<longrightarrow> s = curveOrder - s0') \<and>
             (s0' \<le> curveOrder div 2 \<longrightarrow> s = s0') \<and>
             s \<le> curveOrder div 2)) \<and>
   (signMessageUsingWebAuthn pf u message serverUrl chainId allowCredentials injected = (Inr sig, evs)
      \<longrightarrow> (\<exists>a c t r' s b.
             encodeAbiParameters pf
               [Abi_bytes a, Abi_string c, Abi_uint256 t, Abi_uint256 r', Abi_uint256 s, Abi_bool b] = Inr sig \<and>
             s \<le> curveOrder div 2))"
proof (intro conjI impI)
  assume "parseSignature u signatureHex = Inr (r, s0)"
  then show "parseAndNormalizeSig u signatureHex =
      Inr (r, if curveOrder div 2 < s0 then curveOrder - s0 else s0)"
    by (rule parseAndNormalizeSig_forward)
next
  show "(if curveOrder div 2 < s0 then curveOrder - s0 else s0) \<le> curveOrder div 2"
    by (rule low_s_bound)
next
  assume h: "b64ToBytes u (authenticatorData (response cred)) = Inr authenticatorDataBytes \<and>
    atob pf (clientDataJSON (response cred)) = Inr clientDataText \<and>
    findQuoteIndices u clientDataText = Inr (beforeType, beforeChallenge) \<and>
    b64ToBytes u (signature (response cred)) = Inr signatureBytes \<and>
    parseSignature u (uint8ArrayToHexString u signatureBytes) = Inr (r, s0)"
  then show "signatureValues pf u chainId cred =
            Inr [Abi_bytes (uint8ArrayToHexString u authenticatorDataBytes),
                 Abi_string clientDataText,
                 Abi_uint256 beforeType,
                 Abi_uint256 r,
                 Abi_uint256 (if curveOrder div 2 < s0 then curveOrder - s0 else s0),
                 Abi_bool (chainId \<in> set (rip7212_chain_ids u))]"
    by (simp add: signatureValues_forward parseAndNormalizeSig_forward)
next
  assume h: "messageContent message = Inr content \<and>
    hexStringToUint8Array u (formattedMessage content) = Inr bytes \<and>
    (case injected of Some invoke \<Rightarrow> invoke | None \<Rightarrow> startAuthentication pf)
      (assertionOptions (base64FromArrayBuffer u bytes True) allowCredentials) = Inr cred \<and>
    b64ToBytes u (authenticatorData (response cred)) = Inr authenticatorDataBytes \<and>
    atob pf (clientDataJSON (response cred)) = Inr clientDataText \<and>
    findQuoteIndices u clientDataText = Inr (beforeType, beforeChallenge) \<and>
    b64ToBytes u (signature (response cred)) = Inr signatureBytes \<and>
    parseSignature u (uint8ArrayToHexString u signatureBytes) = Inr (r, s0)"
  then have "signatureValues pf u chainId cred =
            Inr [Abi_bytes (uint8ArrayToHexString u authenticatorDataBytes),
                 Abi_string clientDataText,
                 Abi_uint256 beforeType,
                 Abi_uint256 r,
                 Abi_uint256 (if curveOrder div 2 < s0 then curveOrder - s0 else s0),
                 Abi_bool (chainId \<in> set (rip7212_chain_ids u))]"
    by (simp add: signatureValues_forward parseAndNormalizeSig_forward)
  with h show "signMessageUsingWebAuthn pf u message serverUrl chainId allowCredentials injected =
            (encodeAbiParameters pf
               [Abi_bytes (uint8ArrayToHexString u authenticatorDataBytes),
                Abi_string clientDataText,
                Abi_uint256 beforeType,
                Abi_uint256 r,
                Abi_uint256 (if curveOrder div 2 < s0 then curveOrder - s0 else s0),
                Abi_bool (chainId \<in> set (rip7212_chain_ids u))],
             [Authenticator (assertionOptions (base64FromArrayBuffer u bytes True) allowCredentials)])"
    using signMessage_forward by blast
next
  assume sv: "signatureValues pf u chainId cred = Inr vals"
  from signatureValues_Inr [OF sv] obtain ad ct bt bc sb r' s where
    sb: "b64ToBytes u (signature (response cred)) = Inr sb"
    and norm: "parseAndNormalizeSig u (uint8ArrayToHexString u sb) = Inr (r', s)"
    and vals: "vals = [Abi_bytes (uint8ArrayToHexString u ad), Abi_string ct, Abi_uint256 bt,
                       Abi_uint256 r', Abi_uint256 s, Abi_bool (chainId \<in> set (rip7212_chain_ids u))]"
    by blast
  from parseAndNormalizeSig_Inr [OF norm] obtain s0' where
    parsed: "parseSignature u (uint8ArrayToHexString u sb) = Inr (r', s0')"
    and s: "s = (if curveOrder div 2 < s0' then curveOrder - s0' else s0')"
    by blast
  from s have "s \<le> curveOrder div 2" using low_s_bound by simp
  with sb parsed vals s show "\<exists>sb r' s0' s a c t b.
             b64ToBytes u (signature (response cred)) = Inr sb \<and>
             parseSignature u (uint8ArrayToHexString u sb) = Inr (r', s0') \<and>
             vals = [Abi_bytes a, Abi_string c, Abi_uint256 t, Abi_uint256 r', Abi_uint256 s, Abi_bool b] \<and>
             (curveOrder div 2 < s0' \<longrightarrow> s = curveOrder - s0') \<and>
             (s0' \<le> curveOrder div 2 \<longrightarrow> s = s0') \<and>
             s \<le> curveOrder div 2"
    by auto
next
  assume run: "signMessageUsingWebAuthn pf u message serverUrl chainId allowCredentials injected = (Inr sig, evs)"
  from signMessageUsingWebAuthn_Inr [OF run] obtain sb ad ct bt r' s where
    norm: "parseAndNormalizeSig u (uint8ArrayToHexString u sb) = Inr (r', s)"
    and enc: "encodeAbiParameters pf
             [Abi_bytes (uint8ArrayToHexString u ad), Abi_string ct, Abi_uint256 bt,
              Abi_uint256 r', Abi_uint256 s, Abi_bool (chainId \<in> set (rip7212_chain_ids u))] = Inr sig"
    by blast
  from parseAndNormalizeSig_Inr [OF norm] have "s \<le> curveOrder div 2"
    using low_s_bound by auto
  with enc show "\<exists>a c t r' s b.
             encodeAbiParameters pf
               [Abi_bytes a, Abi_string c, Abi_uint256 t, Abi_uint256 r', Abi_uint256 s, Abi_bool b] = Inr sig \<and>
             s \<le> curveOrder div 2"
    by blast
qed

text \<open>
  The scripted world twice: with a parsed \<open>s0\<close> of \<open>curveOrder - 7\<close>, above half the order,
  the list and the signature carry 7; with a parsed \<open>s0\<close> of 3 they carry 3.
\<close>

theorem low_s_normalization_witness:
  "signatureValues (sample_platform JNull) sample_utils 137 sample_assertion =
     Inr [Abi_bytes ''0x010203'', Abi_string ''{}'', Abi_uint256 1, Abi_uint256 5, Abi_uint256 7,
          Abi_bool True] \<and>
   parseSignature sample_utils ''0x010203'' = Inr (5, curveOrder - 7) \<and>
   curveOrder div 2 < curveOrder - 7 \<and>
   signatureValues (sample_platform JNull) sample_utils_low_s 137 sample_assertion =
     Inr [Abi_bytes ''0x010203'', Abi_string ''{}'', Abi_uint256 1, Abi_uint256 5, Abi_uint256 3,
          Abi_bool True] \<and>
   parseSignature sample_utils_low_s ''0x010203'' = Inr (5, 3) \<and>
   (3 :: int) \<le> curveOrder div 2 \<and>
   signMessageUsingWebAuthn sample_signing_platform sample_utils (JObj [(''raw'', JStr ''0x010203'')])
     ''https://passkeys.example'' 137 sample_allowCredentials None =
     (Inr ''bytes:0x010203;string:{};uint256:I;uint256:IIIII;uint256:IIIIIII;bool:1;'',
      [Authenticator (assertionOptions ''AQID'' sample_allowCredentials)]) \<and>
   signMessageUsingWebAuthn sample_signing_platform sample_utils_low_s (JObj [(''raw'', JStr ''0x010203'')])
     ''https://passkeys.example'' 137 sample_allowCredentials None =
     (Inr ''bytes:0x010203;string:{};uint256:I;uint256:IIIII;uint256:III;bool:1;'',
      [Authenticator (assertionOptions ''AQID'' sample_allowCredentials)])"
proof -
  have a: "signatureValues (sample_platform JNull) sample_utils 137 sample_assertion =
     Inr [Abi_bytes ''0x010203'', Abi_string ''{}'', Abi_uint256 1, Abi_uint256 5, Abi_uint256 7,
          Abi_bool True]"
    using low_s_normalization [where pf = "sample_platform JNull" and u = sample_utils
        and cred = sample_assertion and chainId = 137 and authenticatorDataBytes = "[1, 2, 3]"
        and clientDataText = "''{}''" and beforeType = 1 and beforeChallenge = 23
        and signatureBytes = "[1, 2, 3]" and r = 5 and ?s0.0 = "curveOrder - 7"]
    by (simp add: sample_world_defs curveOrder_def)
  have b: "signatureValues (sample_platform JNull) sample_utils_low_s 137 sample_assertion =
     Inr [Abi_bytes ''0x010203'', Abi_string ''{}'', Abi_uint256 1, Abi_uint256 5, Abi_uint256 3,
          Abi_bool True]"
    using low_s_normalization [where pf = "sample_platform JNull" and u = sample_utils_low_s
        and cred = sample_assertion and chainId = 137 and authenticatorDataBytes = "[1, 2, 3]"
        and clientDataText = "''{}''" and beforeType = 1 and beforeChallenge = 23
        and signatureBytes = "[1, 2, 3]" and r = 5 and ?s0.0 = 3]
    by (simp add: sample_world_defs curveOrder_def)
  have c: "signMessageUsingWebAuthn sample_signing_platform sample_utils (JObj [(''raw'', JStr ''0x010203'')])
     ''https://passkeys.example'' 137 sample_allowCredentials None =
     (Inr ''bytes:0x010203;string:{};uint256:I;uint256:IIIII;uint256:IIIIIII;bool:1;'',
      [Authenticator (assertionOptions ''AQID'' sample_allowCredentials)])"
    using low_s_normalization [where pf = sample_signing_platform and u = sample_utils
        and message = "JObj [(''raw'', JStr ''0x010203'')]" and content = "''0x010203''"
        and bytes = "[1, 2, 3]" and injected = None and allowCredentials = sample_allowCredentials
        and cred = sample_assertion and chainId = 137 and authenticatorDataBytes = "[1, 2, 3]"
        and clientDataText = "''{}''" and beforeType = 1 and beforeChallenge = 23
        and signatureBytes = "[1, 2, 3]" and r = 5 and ?s0.0 = "curveOrder - 7"
        and serverUrl = "''https://passkeys.example''"]
    by (simp add: sample_world_defs curveOrder_def messageContent_def formattedMessage_def
        eval_nat_numeral)
  have d: "signMessageUsingWebAuthn sample_signing_platform sample_utils_low_s (JObj [(''raw'', JStr ''0x010203'')])
     ''https://passkeys.example'' 137 sample_allowCredentials None =
     (Inr ''bytes:0x010203;string:{};uint256:I;uint256:IIIII;uint256:III;bool:1;'',
      [Authenticator (assertionOptions ''AQID'' sample_allowCredentials)])"
    using low_s_normalization [where pf = sample_signing_platform and u = sample_utils_low_s
        and message = "JObj [(''raw'', JStr ''0x010203'')]" and content = "''0x010203''"
        and bytes = "[1, 2, 3]" and injected = None and allowCredentials = sample_allowCredentials
        and cred = sample_assertion and chainId = 137 and authenticatorDataBytes = "[1, 2, 3]"
        and clientDataText = "''{}''" and beforeType = 1 and beforeChallenge = 23
        and signatureBytes = "[1, 2, 3]" and r = 5 and ?s0.0 = 3
        and serverUrl = "''https://passkeys.example''"]
    by (simp add: sample_world_defs curveOrder_def messageContent_def formattedMessage_def
        eval_nat_numeral)
  from a b c d show ?thesis
    by (simp add: sample_utils_def sample_utils_low_s_def curveOrder_def)
qed

subsection \<open>Credential acquisition\<close>

text \<open>
  C2, as amended. When \<^verbatim>\<open>toWebAuthnKey\<close> is called without a \<^verbatim>\<open>webAuthnKey\<close> argument and
  returns a key, the key's \<^verbatim>\<open>authenticatorIdHash\<close> is \<^verbatim>\<open>keccak256\<close> of the hex text of the
  bytes \<^verbatim>\<open>b64ToBytes\<close> decodes from the key's own \<^verbatim>\<open>credId\<close>, and that \<^verbatim>\<open>credId\<close> is the id of
  the credential the authenticator returned in the ceremony. Both branches compute it the
  same way, and as a function of the credential id it is the same on every run.
\<close>

theorem built_key_hash:
  assumes "webAuthnKey p = None" and "toWebAuthnKey pf u p = (Inr k, evs)"
  shows "(\<exists>bytes. b64ToBytes u (credId k) = Inr bytes \<and>
            authenticatorIdHash k = keccak256 pf (uint8ArrayToHexString u bytes)) \<and>
         (\<exists>cred res t. (if mode p = Login then loginExchange pf p else registerExchange pf p) =
            (Inr (cred, res), t) \<and> credId k = cred_id cred)"
proof -
  from assms have same: "p\<lparr>webAuthnKey := None\<rparr> = p" by simp
  from assms have "bind_io (loginOrRegisterWithWebAuthn pf p)
      (\<lambda>res. pure_io (webAuthnKeyOf pf u res)) = (Inr k, evs)"
    by (simp add: toWebAuthnKey_def same split: if_splits)
  then obtain res t where run: "loginOrRegisterWithWebAuthn pf p = (Inr res, t)"
    and key: "webAuthnKeyOf pf u res = Inr k"
    by (auto elim!: bind_io_InrE simp: pure_io_def)
  obtain x y c where res: "res = (x, y, c)" by (cases res)
  from key res have k: "credId k = c" "\<exists>bytes. b64ToBytes u c = Inr bytes \<and>
           authenticatorIdHash k = keccak256 pf (uint8ArrayToHexString u bytes)"
    using webAuthnKeyOf_hash by blast+
  from run res have "\<exists>cred res t. (if mode p = Login then loginExchange pf p else registerExchange pf p) =
            (Inr (cred, res), t) \<and> c = cred_id cred"
    using loginOrRegister_credential by blast
  with k show ?thesis by auto
qed

text \<open>A login in the scripted world returns the key with the hash of its credential id.\<close>

theorem built_key_hash_witness:
  "toWebAuthnKey (sample_platform sample_login_reply) sample_utils (sample_params Login) =
     (Inr sample_key, sample_login_trace) \<and>
   (\<exists>bytes. b64ToBytes sample_utils (credId sample_key) = Inr bytes \<and>
      authenticatorIdHash sample_key =
        keccak256 (sample_platform sample_login_reply) (uint8ArrayToHexString sample_utils bytes)) \<and>
   credId sample_key = cred_id sample_credential"
proof -
  from built_key_hash [OF sample_webAuthnKey sample_login_run]
  show ?thesis
    by (simp add: sample_login_run sample_key_def sample_credential_def)
qed

text \<open>
  C2 as stated fails where the caller supplies the key: whatever the hash function and
  the helpers are, two keys with the same credential id \<^verbatim>\<open>AQID\<close> and the different
  hashes \<^verbatim>\<open>0x00\<close> and \<^verbatim>\<open>0x01\<close> are both returned as they are, so at most one of them carries
  the hash of its credential id.
\<close>

theorem supplied_key_hash_counterexample:
  "\<forall>pf u.
     toWebAuthnKey pf u
       \<lparr> passkeyName = ''alice'', passkeyServerUrl = ''https://passkeys.example'',
         webAuthnKey = Some \<lparr> pubX = 1, pubY = 2, credId = ''AQID'', authenticatorIdHash = ''0x00'' \<rparr>,
         mode = Login, signWithAuthenticator = (\<lambda>opts. Inl (Rejected ''NotAllowedError'')) \<rparr>
       = (Inr \<lparr> pubX = 1, pubY = 2, credId = ''AQID'', authenticatorIdHash = ''0x00'' \<rparr>, []) \<and>
     toWebAuthnKey pf u
       \<lparr> passkeyName = ''alice'', passkeyServerUrl = ''https://passkeys.example'',
         webAuthnKey = Some \<lparr> pubX = 1, pubY = 2, credId = ''AQID'', authenticatorIdHash = ''0x01'' \<rparr>,
         mode = Login, signWithAuthenticator = (\<lambda>opts. Inl (Rejected ''NotAllowedError'')) \<rparr>
       = (Inr \<lparr> pubX = 1, pubY = 2, credId = ''AQID'', authenticatorIdHash = ''0x01'' \<rparr>, []) \<and>
     (''0x00'' :: string) \<noteq> ''0x01''"
  by (simp add: toWebAuthnKey_def return_io_def)

subsection \<open>Signer adapter\<close>

text \<open>
  C3. The value list behind \<^verbatim>\<open>getDummySignature\<close>, for each constructor. A validator is a
  value here, so every call of the method gives the same bytes. The third value, the
  \<^verbatim>\<open>responseTypeLocation\<close>, is 0 in a validator built by \<^verbatim>\<open>toPasskeyValidator\<close> and 1 in a
  validator rebuilt by \<^verbatim>\<open>deserializePasskeyValidator\<close>; the other five values agree.
\<close>

theorem dummy_signature_values:
  "(toPasskeyValidator pf u cl p = Inr v
      \<longrightarrow> getDummySignature v =
            encodeAbiParameters pf
              [Abi_bytes dummyAuthenticatorData, Abi_string dummyClientDataJSON, Abi_uint256 0,
               Abi_uint256 dummyR, Abi_uint256 dummyS, Abi_bool False]) \<and>
   (deserializePasskeyValidator pf u cl serializedData entryPointAddress injected = Inr v'
      \<longrightarrow> getDummySignature v' =
            encodeAbiParameters pf
              [Abi_bytes dummyAuthenticatorData, Abi_string dummyClientDataJSON, Abi_uint256 1,
               Abi_uint256 dummyR, Abi_uint256 dummyS, Abi_bool False])"
  by (auto simp: toPasskeyValidator_def deserializePasskeyValidator_def Let_def bind_sum_eq_Inr)

text \<open>Both validators exist in the scripted world, and their third values differ.\<close>

theorem dummy_signature_values_witness:
  "(\<exists>v. toPasskeyValidator (sample_platform JNull) sample_utils (Inr 137) sample_validator_params = Inr v \<and>
      getDummySignature v =
        encodeAbiParameters (sample_platform JNull)
          [Abi_bytes dummyAuthenticatorData, Abi_string dummyClientDataJSON, Abi_uint256 0,
           Abi_uint256 dummyR, Abi_uint256 dummyS, Abi_bool False]) \<and>
   (\<exists>v'. deserializePasskeyValidator (sample_platform JNull) sample_utils (Inr 137) ''blob''
          sample_entryPoint None = Inr v' \<and>
      getDummySignature v' =
        encodeAbiParameters (sample_platform JNull)
          [Abi_bytes dummyAuthenticatorData, Abi_string dummyClientDataJSON, Abi_uint256 1,
           Abi_uint256 dummyR, Abi_uint256 dummyS, Abi_bool False]) \<and>
   Abi_uint256 1 \<noteq> Abi_uint256 0"
  using dummy_signature_values [where pf = "sample_platform JNull" and u = sample_utils
      and cl = "Inr 137" and p = sample_validator_params and serializedData = "''blob''"
      and entryPointAddress = sample_entryPoint and injected = None]
    sample_toPasskeyValidator sample_deserializePasskeyValidator
  by auto

text \<open>
  C4. The text \<^verbatim>\<open>signMessageUsingWebAuthn\<close> takes from a message whose \<^verbatim>\<open>raw\<close> is the byte
  array 1, 2, 3 is \<^verbatim>\<open>1,2,3\<close>, the elements in decimal joined by commas; it has no \<^verbatim>\<open>0x\<close> to
  strip and goes to \<^verbatim>\<open>hexStringToUint8Array\<close> as it is. The hex string of the same bytes,
  \<^verbatim>\<open>0x010203\<close>, passed as a string in \<^verbatim>\<open>raw\<close>, gives \<^verbatim>\<open>010203\<close>.
\<close>

theorem byte_array_message_content:
  "messageContent (JObj [(''raw'', JBytes [1, 2, 3])]) = Inr ''1,2,3'' \<and>
   formattedMessage ''1,2,3'' = ''1,2,3'' \<and>
   messageContent (JObj [(''raw'', JStr ''0x010203'')]) = Inr ''0x010203'' \<and>
   formattedMessage ''0x010203'' = ''010203''"
  by (simp add: messageContent_def formattedMessage_def uint8Array_toString_def byte_toString_def
      decimal_digit_def)

text \<open>
  C5. Whenever the message has a text, the authenticator returns an assertion and the
  helpers on the way succeed, \<^verbatim>\<open>signMessageUsingWebAuthn\<close> returns what \<^verbatim>\<open>encodeAbiParameters\<close>
  makes of six values in this order: the authenticator data as hex bytes, the client data
  text exactly as \<^verbatim>\<open>atob\<close> decoded it from the assertion, the \<^verbatim>\<open>beforeType\<close> offset, \<open>r\<close>, \<open>s\<close>,
  and a flag that is true exactly when the chain id is in the list of chains with the
  precompile, after one authenticator invocation. Conversely every signature it returns
  is such an encoding, of the reply of the one authenticator invocation made. Both
  constructors pass the chain id their client reported at construction.
\<close>

theorem signature_is_abi_tuple:
  "(messageContent message = Inr content \<and>
    hexStringToUint8Array u (formattedMessage content) = Inr bytes \<and>
    (case injected of Some invoke \<Rightarrow> invoke | None \<Rightarrow> startAuthentication pf)
      (assertionOptions (base64FromArrayBuffer u bytes True) allowCredentials) = Inr assertion \<and>
    b64ToBytes u (authenticatorData (response assertion)) = Inr dataBytes \<and>
    atob pf (clientDataJSON (response assertion)) = Inr clientText \<and>
    findQuoteIndices u clientText = Inr (typeLocation, challengeLocation) \<and>
    b64ToBytes u (signature (response assertion)) = Inr sigBytes \<and>
    parseAndNormalizeSig u (uint8ArrayToHexString u sigBytes) = Inr (sigR, sigS)
      \<longrightarrow> signMessageUsingWebAuthn pf u message serverUrl chainId allowCredentials injected =
            (encodeAbiParameters pf
               [Abi_bytes (uint8ArrayToHexString u dataBytes),
                Abi_string clientText,
                Abi_uint256 typeLocation,
                Abi_uint256 sigR,
                Abi_uint256 sigS,
                Abi_bool (chainId \<in> set (rip7212_chain_ids u))],
             [Authenticator (assertionOptions (base64FromArrayBuffer u bytes True) allowCredentials)])) \<and>
   (signMessageUsingWebAuthn pf u message serverUrl chainId allowCredentials injected = (Inr sig, evs)
      \<longrightarrow> (\<exists>cred authenticatorDataBytes clientDataText beforeType beforeChallenge signatureBytes r s opts.
             evs = [Authenticator opts] \<and>
             (case injected of Some invoke \<Rightarrow> invoke | None \<Rightarrow> startAuthentication pf) opts = Inr cred \<and>
             b64ToBytes u (authenticatorData (response cred)) = Inr authenticatorDataBytes \<and>
             atob pf (clientDataJSON (response cred)) = Inr clientDataText \<and>
             findQuoteIndices u clientDataText = Inr (beforeType, beforeChallenge) \<and>
             b64ToBytes u (signature (response cred)) = Inr signatureBytes \<and>
             parseAndNormalizeSig u (uint8ArrayToHexString u signatureBytes) = Inr (r, s) \<and>
             encodeAbiParameters pf
               [Abi_bytes (uint8ArrayToHexString u authenticatorDataBytes),
                Abi_string clientDataText,
                Abi_uint256 beforeType,
                Abi_uint256 r,
                Abi_uint256 s,
                Abi_bool (chainId \<in> set (rip7212_chain_ids u))] = Inr sig)) \<and>
   (toPasskeyValidator pf u cl p = Inr v
      \<longrightarrow> (\<exists>constructionChainId. cl = Inr constructionChainId \<and>
             (\<forall>m. signMessage v m =
                signMessageUsingWebAuthn pf u m (pv_passkeyServerUrl p) constructionChainId
                  (JArr [JObj [(''id'', JStr (credId (pv_webAuthnKey p))), (''type'', JStr ''public-key'')]])
                  (pv_signWithAuthenticator p)))) \<and>
   (deserializePasskeyValidator pf u cl serializedData entryPointAddress injected' = Inr v'
      \<longrightarrow> (\<exists>constructionChainId d. cl = Inr constructionChainId \<and>
             deserializePasskeyValidatorData u serializedData = Inr d \<and>
             (\<forall>m. signMessage v' m =
                signMessageUsingWebAuthn pf u m (ser_passkeyServerUrl d) constructionChainId
                  (JArr [JObj [(''id'', JStr (ser_credId d)), (''type'', JStr ''public-key'')]])
                  injected')))"
proof (intro conjI impI)
  assume h: "messageContent message = Inr content \<and>
    hexStringToUint8Array u (formattedMessage content) = Inr bytes \<and>
    (case injected of Some invoke \<Rightarrow> invoke | None \<Rightarrow> startAuthentication pf)
      (assertionOptions (base64FromArrayBuffer u bytes True) allowCredentials) = Inr assertion \<and>
    b64ToBytes u (authenticatorData (response assertion)) = Inr dataBytes \<and>
    atob pf (clientDataJSON (response assertion)) = Inr clientText \<and>
    findQuoteIndices u clientText = Inr (typeLocation, challengeLocation) \<and>
    b64ToBytes u (signature (response assertion)) = Inr sigBytes \<and>
    parseAndNormalizeSig u (uint8ArrayToHexString u sigBytes) = Inr (sigR, sigS)"
  then have "signatureValues pf u chainId assertion =
            Inr [Abi_bytes (uint8ArrayToHexString u dataBytes),
                 Abi_string clientText,
                 Abi_uint256 typeLocation,
                 Abi_uint256 sigR,
                 Abi_uint256 sigS,
                 Abi_bool (chainId \<in> set (rip7212_chain_ids u))]"
    by (simp add: signatureValues_forward)
  with h show "signMessageUsingWebAuthn pf u message serverUrl chainId allowCredentials injected =
            (encodeAbiParameters pf
               [Abi_bytes (uint8ArrayToHexString u dataBytes),
                Abi_string clientText,
                Abi_uint256 typeLocation,
                Abi_uint256 sigR,
                Abi_uint256 sigS,
                Abi_bool (chainId \<in> set (rip7212_chain_ids u))],
             [Authenticator (assertionOptions (base64FromArrayBuffer u bytes True) allowCredentials)])"
    using signMessage_forward by blast
next
  assume "signMessageUsingWebAuthn pf u message serverUrl chainId allowCredentials injected = (Inr sig, evs)"
  from signMessageUsingWebAuthn_Inr [OF this]
  show "\<exists>cred authenticatorDataBytes clientDataText beforeType beforeChallenge signatureBytes r s opts.
             evs = [Authenticator opts] \<and>
             (case injected of Some invoke \<Rightarrow> invoke | None \<Rightarrow> startAuthentication pf) opts = Inr cred \<and>
             b64ToBytes u (authenticatorData (response cred)) = Inr authenticatorDataBytes \<and>
             atob pf (clientDataJSON (response cred)) = Inr clientDataText \<and>
             findQuoteIndices u clientDataText = Inr (beforeType, beforeChallenge) \<and>
             b64ToBytes u (signature (response cred)) = Inr signatureBytes \<and>
             parseAndNormalizeSig u (uint8ArrayToHexString u signatureBytes) = Inr (r, s) \<and>
             encodeAbiParameters pf
               [Abi_bytes (uint8ArrayToHexString u authenticatorDataBytes),
                Abi_string clientDataText,
                Abi_uint256 beforeType,
                Abi_uint256 r,
                Abi_uint256 s,
                Abi_bool (chainId \<in> set (rip7212_chain_ids u))] = Inr sig"
    by blast
next
  assume "toPasskeyValidator pf u cl p = Inr v"
  then show "\<exists>constructionChainId. cl = Inr constructionChainId \<and>
             (\<forall>m. signMessage v m =
                signMessageUsingWebAuthn pf u m (pv_passkeyServerUrl p) constructionChainId
                  (JArr [JObj [(''id'', JStr (credId (pv_webAuthnKey p))), (''type'', JStr ''public-key'')]])
                  (pv_signWithAuthenticator p))"
    by (rule toPasskeyValidator_signMessage)
next
  assume "deserializePasskeyValidator pf u cl serializedData entryPointAddress injected' = Inr v'"
  then show "\<exists>constructionChainId d. cl = Inr constructionChainId \<and>
             deserializePasskeyValidatorData u serializedData = Inr d \<and>
             (\<forall>m. signMessage v' m =
                signMessageUsingWebAuthn pf u m (ser_passkeyServerUrl d) constructionChainId
                  (JArr [JObj [(''id'', JStr (ser_credId d)), (''type'', JStr ''public-key'')]])
                  injected')"
    by (rule deserializePasskeyValidator_signMessage)
qed

text \<open>
  Signing runs in the scripted world on chain 137, which is in its list, and on chain 1,
  which is not, and the two validators constructed there on chain 1.
\<close>

theorem signature_is_abi_tuple_witness:
  "signMessageUsingWebAuthn sample_signing_platform sample_utils (JObj [(''raw'', JStr ''0x010203'')])
     ''https://passkeys.example'' 137 sample_allowCredentials None =
     (Inr ''bytes:0x010203;string:{};uint256:I;uint256:IIIII;uint256:IIIIIII;bool:1;'',
      [Authenticator (assertionOptions ''AQID'' sample_allowCredentials)]) \<and>
   137 \<in> set (rip7212_chain_ids sample_utils) \<and>
   signMessageUsingWebAuthn sample_signing_platform sample_utils (JObj [(''raw'', JStr ''0x010203'')])
     ''https://passkeys.example'' 1 sample_allowCredentials None =
     (Inr ''bytes:0x010203;string:{};uint256:I;uint256:IIIII;uint256:IIIIIII;bool:0;'',
      [Authenticator (assertionOptions ''AQID'' sample_allowCredentials)]) \<and>
   1 \<notin> set (rip7212_chain_ids sample_utils) \<and>
   (\<exists>v. toPasskeyValidator sample_signing_platform sample_utils (Inr 1) sample_validator_params = Inr v \<and>
      signMessage v (JStr ''0x010203'') =
        (Inr ''bytes:0x010203;string:{};uint256:I;uint256:IIIII;uint256:IIIIIII;bool:0;'',
         [Authenticator (assertionOptions ''AQID'' sample_allowCredentials)])) \<and>
   (\<exists>v. deserializePasskeyValidator sample_signing_platform sample_utils (Inr 1) ''blob''
          sample_entryPoint None = Inr v \<and>
      signMessage v (JStr ''0x010203'') =
        (Inr ''bytes:0x010203;string:{};uint256:I;uint256:IIIII;uint256:IIIIIII;bool:0;'',
         [Authenticator (assertionOptions ''AQID'' sample_allowCredentials)]))"
proof -
  note inst = signature_is_abi_tuple [where pf = sample_signing_platform and u = sample_utils
      and content = "''0x010203''" and bytes = "[1, 2, 3]" and injected = None
      and allowCredentials = sample_allowCredentials and assertion = sample_assertion
      and dataBytes = "[1, 2, 3]" and clientText = "''{}''" and typeLocation = 1
      and challengeLocation = 23 and sigBytes = "[1, 2, 3]" and sigR = 5 and sigS = 7
      and serverUrl = "''https://passkeys.example''" and cl = "Inr 1"]
  have a: "signMessageUsingWebAuthn sample_signing_platform sample_utils (JObj [(''raw'', JStr ''0x010203'')])
     ''https://passkeys.example'' 137 sample_allowCredentials None =
     (Inr ''bytes:0x010203;string:{};uint256:I;uint256:IIIII;uint256:IIIIIII;bool:1;'',
      [Authenticator (assertionOptions ''AQID'' sample_allowCredentials)])"
    using inst [where message = "JObj [(''raw'', JStr ''0x010203'')]" and chainId = 137, THEN conjunct1]
    by (simp add: sample_world_defs curveOrder_def messageContent_def formattedMessage_def
        parseAndNormalizeSig_def eval_nat_numeral)
  have b: "signMessageUsingWebAuthn sample_signing_platform sample_utils (JObj [(''raw'', JStr ''0x010203'')])
     ''https://passkeys.example'' 1 sample_allowCredentials None =
     (Inr ''bytes:0x010203;string:{};uint256:I;uint256:IIIII;uint256:IIIIIII;bool:0;'',
      [Authenticator (assertionOptions ''AQID'' sample_allowCredentials)])"
    using inst [where message = "JObj [(''raw'', JStr ''0x010203'')]" and chainId = 1, THEN conjunct1]
    by (simp add: sample_world_defs curveOrder_def messageContent_def formattedMessage_def
        parseAndNormalizeSig_def eval_nat_numeral)
  have b': "signMessageUsingWebAuthn sample_signing_platform sample_utils (JStr ''0x010203'')
     ''https://passkeys.example'' 1 sample_allowCredentials None =
     (Inr ''bytes:0x010203;string:{};uint256:I;uint256:IIIII;uint256:IIIIIII;bool:0;'',
      [Authenticator (assertionOptions ''AQID'' sample_allowCredentials)])"
    using inst [where message = "JStr ''0x010203''" and chainId = 1, THEN conjunct1]
    by (simp add: sample_world_defs curveOrder_def messageContent_def formattedMessage_def
        parseAndNormalizeSig_def eval_nat_numeral)
  obtain v where v: "toPasskeyValidator sample_signing_platform sample_utils (Inr 1)
      sample_validator_params = Inr v"
    using sample_signing_toPasskeyValidator by blast
  from inst [THEN conjunct2, THEN conjunct2, THEN conjunct1, rule_format, OF v]
  have c: "signMessage v (JStr ''0x010203'') =
        signMessageUsingWebAuthn sample_signing_platform sample_utils (JStr ''0x010203'')
          ''https://passkeys.example'' 1 sample_allowCredentials None"
    by (simp add: sample_validator_params_def sample_key_def sample_allowCredentials_def)
  obtain v' where v': "deserializePasskeyValidator sample_signing_platform sample_utils (Inr 1)
      ''blob'' sample_entryPoint None = Inr v'"
    using sample_signing_deserializePasskeyValidator by blast
  from inst [THEN conjunct2, THEN conjunct2, THEN conjunct2, rule_format, OF v']
  have d: "signMessage v' (JStr ''0x010203'') =
        signMessageUsingWebAuthn sample_signing_platform sample_utils (JStr ''0x010203'')
          ''https://passkeys.example'' 1 sample_allowCredentials None"
    by (auto simp: sample_utils_def sample_allowCredentials_def)
  have e: "137 \<in> set (rip7212_chain_ids sample_utils)" "1 \<notin> set (rip7212_chain_ids sample_utils)"
    by (simp_all add: sample_utils_def)
  from c b' v have f: "\<exists>v. toPasskeyValidator sample_signing_platform sample_utils (Inr 1)
        sample_validator_params = Inr v \<and>
      signMessage v (JStr ''0x010203'') =
        (Inr ''bytes:0x010203;string:{};uint256:I;uint256:IIIII;uint256:IIIIIII;bool:0;'',
         [Authenticator (assertionOptions ''AQID'' sample_allowCredentials)])"
    by (intro exI [of _ v] conjI) simp_all
  from d b' v' have g: "\<exists>v. deserializePasskeyValidator sample_signing_platform sample_utils (Inr 1)
        ''blob'' sample_entryPoint None = Inr v \<and>
      signMessage v (JStr ''0x010203'') =
        (Inr ''bytes:0x010203;string:{};uint256:I;uint256:IIIII;uint256:IIIIIII;bool:0;'',
         [Authenticator (assertionOptions ''AQID'' sample_allowCredentials)])"
    by (intro exI [of _ v'] conjI) simp_all
  show ?thesis
    by (intro conjI) (rule a e b f g)+
qed

text \<open>
  C6. In login mode, once the exchange has brought back the reply of
  \<^verbatim>\<open>/api/auth/complete\<close>: if the reply is falsy (absent) or its \<^verbatim>\<open>accessToken\<close> is missing or
  falsy, \<^verbatim>\<open>loginOrRegisterWithWebAuthn\<close> throws \<^verbatim>\<open>Error("Login not verified")\<close> right after
  the exchange, and \<^verbatim>\<open>toWebAuthnKey\<close> throws the same: no coordinates, no credential id and
  no key come back.
\<close>

theorem login_not_verified:
  assumes "mode p = Login"
    and "loginExchange pf p = (Inr (cred, res), evs)"
    and "\<not> truthy res \<or> (\<exists>tok. get_prop res ''accessToken'' = Inr tok \<and> \<not> truthy tok)"
  shows "loginOrRegisterWithWebAuthn pf p = (Inl (Error ''Login not verified''), evs) \<and>
         toWebAuthnKey pf u (p\<lparr>webAuthnKey := None\<rparr>) = (Inl (Error ''Login not verified''), evs)"
  using login_rejected [OF assms] toWebAuthnKey_fails by blast

text \<open>The scripted server replies with both coordinates and no access token.\<close>

theorem login_not_verified_witness:
  "loginExchange (sample_platform (JObj [(''publicKeyX'', JStr ''0x1''), (''publicKeyY'', JStr ''0x2'')]))
     (sample_params Login) =
     (Inr (sample_credential, JObj [(''publicKeyX'', JStr ''0x1''), (''publicKeyY'', JStr ''0x2'')]),
      sample_login_trace) \<and>
   get_prop (JObj [(''publicKeyX'', JStr ''0x1''), (''publicKeyY'', JStr ''0x2'')]) ''accessToken'' =
     Inr JUndefined \<and>
   loginOrRegisterWithWebAuthn
     (sample_platform (JObj [(''publicKeyX'', JStr ''0x1''), (''publicKeyY'', JStr ''0x2'')]))
     (sample_params Login) = (Inl (Error ''Login not verified''), sample_login_trace) \<and>
   toWebAuthnKey
     (sample_platform (JObj [(''publicKeyX'', JStr ''0x1''), (''publicKeyY'', JStr ''0x2'')])) sample_utils
     ((sample_params Login)\<lparr>webAuthnKey := None\<rparr>) = (Inl (Error ''Login not verified''), sample_login_trace)"
  using login_not_verified [OF sample_mode sample_loginExchange, of
      "JObj [(''publicKeyX'', JStr ''0x1''), (''publicKeyY'', JStr ''0x2'')]" sample_utils]
    sample_loginExchange
  by simp

text \<open>
  C7. In register mode, once the exchange has brought back the reply of
  \<^verbatim>\<open>/api/users/register/complete\<close> and its \<^verbatim>\<open>verified\<close> can be read: a falsy \<^verbatim>\<open>verified\<close> makes
  \<^verbatim>\<open>loginOrRegisterWithWebAuthn\<close> throw \<^verbatim>\<open>Error("Registration not verified")\<close>. In either mode,
  a reply that passed its verification and whose \<^verbatim>\<open>publicKeyX\<close> or \<^verbatim>\<open>publicKeyY\<close> is missing
  or falsy makes it throw \<^verbatim>\<open>Error("No public key returned from registration credential")\<close>.
  In all three cases \<^verbatim>\<open>toWebAuthnKey\<close> throws the same and nothing of a key is returned.
\<close>

theorem registration_failures:
  "(mode p = Register \<and> registerExchange pf p = (Inr (cred, res), evs) \<and>
      get_prop res ''verified'' = Inr verified \<and> \<not> truthy verified
      \<longrightarrow> loginOrRegisterWithWebAuthn pf p = (Inl (Error ''Registration not verified''), evs) \<and>
          toWebAuthnKey pf u (p\<lparr>webAuthnKey := None\<rparr>) =
            (Inl (Error ''Registration not verified''), evs)) \<and>
   (mode p = Register \<and> registerExchange pf p = (Inr (cred, res), evs) \<and>
      get_prop res ''verified'' = Inr verified \<and> truthy verified \<and>
      get_prop res ''publicKeyX'' = Inr x \<and> get_prop res ''publicKeyY'' = Inr y \<and>
      (\<not> truthy x \<or> \<not> truthy y)
      \<longrightarrow> loginOrRegisterWithWebAuthn pf p =
            (Inl (Error ''No public key returned from registration credential''), evs) \<and>
          toWebAuthnKey pf u (p\<lparr>webAuthnKey := None\<rparr>) =
            (Inl (Error ''No public key returned from registration credential''), evs)) \<and>
   (mode p = Login \<and> loginExchange pf p = (Inr (cred, res), evs) \<and> truthy res \<and>
      get_prop res ''accessToken'' = Inr tok \<and> truthy tok \<and>
      get_prop res ''publicKeyX'' = Inr x \<and> get_prop res ''publicKeyY'' = Inr y \<and>
      (\<not> truthy x \<or> \<not> truthy y)
      \<longrightarrow> loginOrRegisterWithWebAuthn pf p =
            (Inl (Error ''No public key returned from registration credential''), evs) \<and>
          toWebAuthnKey pf u (p\<lparr>webAuthnKey := None\<rparr>) =
            (Inl (Error ''No public key returned from registration credential''), evs))"
  using register_rejected [of p pf cred res evs verified]
    register_missing_key [of p pf cred res evs verified x y]
    login_missing_key [of p pf cred res evs tok x y]
    toWebAuthnKey_fails [of pf p _ evs u]
  by blast

text \<open>
  Three replies of the scripted server: unverified; verified without \<^verbatim>\<open>publicKeyX\<close>; logged
  in without \<^verbatim>\<open>publicKeyY\<close>.
\<close>

theorem registration_failures_witness:
  "loginOrRegisterWithWebAuthn (sample_platform (JObj [(''verified'', JBool False)]))
     (sample_params Register) = (Inl (Error ''Registration not verified''), sample_register_trace) \<and>
   toWebAuthnKey (sample_platform (JObj [(''verified'', JBool True), (''publicKeyY'', JStr ''0x2'')]))
     sample_utils ((sample_params Register)\<lparr>webAuthnKey := None\<rparr>) =
     (Inl (Error ''No public key returned from registration credential''), sample_register_trace) \<and>
   loginOrRegisterWithWebAuthn
     (sample_platform (JObj [(''accessToken'', JStr ''token''), (''publicKeyX'', JStr ''0x1'')]))
     (sample_params Login) =
     (Inl (Error ''No public key returned from registration credential''), sample_login_trace)"
proof -
  let ?r1 = "JObj [(''verified'', JBool False)]"
  let ?r2 = "JObj [(''verified'', JBool True), (''publicKeyY'', JStr ''0x2'')]"
  let ?r3 = "JObj [(''accessToken'', JStr ''token''), (''publicKeyX'', JStr ''0x1'')]"
  have a: "loginOrRegisterWithWebAuthn (sample_platform ?r1) (sample_params Register) =
      (Inl (Error ''Registration not verified''), sample_register_trace)"
    using registration_failures [where p = "sample_params Register" and pf = "sample_platform ?r1"
        and cred = sample_credential and res = ?r1 and evs = sample_register_trace
        and verified = "JBool False"]
    by (simp add: sample_registerExchange)
  have b: "toWebAuthnKey (sample_platform ?r2) sample_utils ((sample_params Register)\<lparr>webAuthnKey := None\<rparr>) =
     (Inl (Error ''No public key returned from registration credential''), sample_register_trace)"
    using registration_failures [where p = "sample_params Register" and pf = "sample_platform ?r2"
        and cred = sample_credential and res = ?r2 and evs = sample_register_trace
        and verified = "JBool True" and u = sample_utils and x = JUndefined and y = "JStr ''0x2''"]
    by (simp add: sample_registerExchange)
  have c: "loginOrRegisterWithWebAuthn (sample_platform ?r3) (sample_params Login) =
     (Inl (Error ''No public key returned from registration credential''), sample_login_trace)"
    using registration_failures [where p = "sample_params Login" and pf = "sample_platform ?r3"
        and cred = sample_credential and res = ?r3 and evs = sample_login_trace
        and tok = "JStr ''token''" and x = "JStr ''0x1''" and y = JUndefined]
    by (simp add: sample_loginExchange)
  from a b c show ?thesis by simp
qed

text \<open>
  C8. \<^verbatim>\<open>signTransaction\<close> of a validator, from either constructor and for every pair of
  arguments, throws \<^verbatim>\<open>SignTransactionNotSupportedBySmartAccount\<close> and makes no request and no
  authenticator invocation.
\<close>

theorem signTransaction_unsupported:
  "(toPasskeyValidator pf u cl p = Inr v
      \<longrightarrow> signTransaction v transaction options = (Inl SignTransactionNotSupportedBySmartAccount, [])) \<and>
   (deserializePasskeyValidator pf u cl serializedData entryPointAddress injected = Inr v'
      \<longrightarrow> signTransaction v' transaction options = (Inl SignTransactionNotSupportedBySmartAccount, []))"
  by (auto simp: toPasskeyValidator_def deserializePasskeyValidator_def Let_def bind_sum_eq_Inr
      throw_io_def)

text \<open>Both validators of the scripted world refuse a transfer.\<close>

theorem signTransaction_unsupported_witness:
  "(\<exists>v. toPasskeyValidator (sample_platform JNull) sample_utils (Inr 137) sample_validator_params = Inr v \<and>
      signTransaction v (JObj [(''to'', JStr ''0x11176000cA328a2CbE62A92291Eb8d0154707b61'')]) JUndefined =
        (Inl SignTransactionNotSupportedBySmartAccount, [])) \<and>
   (\<exists>v'. deserializePasskeyValidator (sample_platform JNull) sample_utils (Inr 137) ''blob''
          sample_entryPoint None = Inr v' \<and>
      signTransaction v' (JObj [(''to'', JStr ''0x11176000cA328a2CbE62A92291Eb8d0154707b61'')]) JUndefined =
        (Inl SignTransactionNotSupportedBySmartAccount, []))"
  using signTransaction_unsupported [where pf = "sample_platform JNull" and u = sample_utils
      and cl = "Inr 137" and p = sample_validator_params and serializedData = "''blob''"
      and entryPointAddress = sample_entryPoint and injected = None]
    sample_toPasskeyValidator sample_deserializePasskeyValidator
  by auto

text \<open>
  C9. Round trip. For a validator built by \<^verbatim>\<open>toPasskeyValidator\<close>, where the deserializer
  of \<^verbatim>\<open>./utils\<close> gives back the configuration the serializer was handed,
  \<^verbatim>\<open>deserializePasskeyValidator\<close> on its \<^verbatim>\<open>getSerializedData()\<close>, against the same client
  reply, returns a validator, and that validator's \<^verbatim>\<open>getEnableData()\<close> equals the
  original's.
\<close>

theorem serialized_validator_enable_data:
  assumes "toPasskeyValidator pf u cl p = Inr v"
    and "deserializePasskeyValidatorData u (serializePasskeyValidatorData u (serializedDataOf u p)) =
           Inr (serializedDataOf u p)"
  shows "\<exists>v'. deserializePasskeyValidator pf u cl (getSerializedData v) entryPointAddress injected = Inr v' \<and>
           getEnableData v' = getEnableData v"
  using assms
  by (auto simp: toPasskeyValidator_def deserializePasskeyValidator_def Let_def bind_sum_eq_Inr
      serializedDataOf_def)

text \<open>The scripted serializer gives the sample configuration back.\<close>

theorem serialized_validator_enable_data_witness:
  "\<exists>v v'. toPasskeyValidator (sample_platform JNull) sample_utils (Inr 137) sample_validator_params = Inr v \<and>
      deserializePasskeyValidator (sample_platform JNull) sample_utils (Inr 137) (getSerializedData v)
        sample_entryPoint None = Inr v' \<and>
      getEnableData v' = getEnableData v \<and> getEnableData v = Inr ''0x00''"
proof -
  obtain v where v: "toPasskeyValidator (sample_platform JNull) sample_utils (Inr 137)
      sample_validator_params = Inr v"
    using sample_toPasskeyValidator by blast
  from serialized_validator_enable_data [OF v sample_roundtrip, of sample_entryPoint None]
  obtain v' where v': "deserializePasskeyValidator (sample_platform JNull) sample_utils (Inr 137)
      (getSerializedData v) sample_entryPoint None = Inr v'" "getEnableData v' = getEnableData v"
    by blast
  from v have "getEnableData v = Inr ''0x00''"
    by (auto simp: toPasskeyValidator_def Let_def sample_platform_def)
  with v v' show ?thesis by blast
qed

text \<open>
  C10. When the optional \<^verbatim>\<open>webAuthnKey\<close> argument is supplied, \<^verbatim>\<open>toWebAuthnKey\<close> returns
  exactly that key and makes no request and no authenticator invocation, whatever the
  mode, the passkey name and the other arguments are.
\<close>

theorem toWebAuthnKey_supplied:
  "toWebAuthnKey pf u (p\<lparr>webAuthnKey := Some k\<rparr>) = (Inr k, [])"
  by (simp add: toWebAuthnKey_def return_io_def)

end
